theory Spec2Isabelle
  imports Complex_Main
begin

section \<open>Python values and the settings record\<close>

text \<open>
  The values that the preset tables hold and that attribute writes carry: booleans,
  integers, floats, strings and tuples of floats. A float literal of the source is
  modelled by the rational number it denotes; no claim below depends on rounding.
\<close>

datatype pyval = PBool bool | PInt int | PFloat rat | PStr string | PVec "rat list"

text \<open>
  \<^verbatim>\<open>class FIREVFX_Settings(PropertyGroup)\<close>: one field per declared property, with
  the declared type.
\<close>

record FIREVFX_Settings =
  preset :: string
  domain_object_name :: string
  emitter_object_name :: string
  ui_show_advanced :: bool
  apply_scale_on_update :: bool
  domain_size :: "rat list"
  emitter_scale :: "rat list"
  resolution_max :: int
  time_scale :: rat
  vorticity :: rat
  use_adaptive_domain :: bool
  adaptive_margin :: int
  adaptive_additional_res :: int
  use_noise :: bool
  noise_strength :: rat
  noise_scale :: rat
  use_dissolve_smoke :: bool
  dissolve_speed :: int
  burning_rate :: rat
  flame_smoke :: rat
  flow_density :: rat
  flow_temperature :: rat
  flow_fuel :: rat
  use_initial_velocity :: bool
  velocity_factor :: rat
  flame_strength :: rat
  smoke_density :: rat
  flame_color_low :: "rat list"
  flame_color_mid :: "rat list"
  flame_color_high :: "rat list"
  cache_directory :: string

subsection \<open>Property declarations: what a write accepts\<close>

text \<open>
  Each declared property accepts a value of its own type, of the declared size and
  within the declared \<open>min\<close>/\<open>max\<close>. A write of anything else raises (the comment in
  \<^verbatim>\<open>_set_if_has\<close>: "Some RNA props can throw due to mode/context/range"), which is
  \<open>None\<close> here.
\<close>

definition BoolProperty :: "pyval \<Rightarrow> bool option" where
  "BoolProperty v = (case v of PBool b \<Rightarrow> Some b | _ \<Rightarrow> None)"

definition StringProperty :: "pyval \<Rightarrow> string option" where
  "StringProperty v = (case v of PStr x \<Rightarrow> Some x | _ \<Rightarrow> None)"

definition EnumProperty :: "string list \<Rightarrow> pyval \<Rightarrow> string option" where
  "EnumProperty items v =
     (case v of PStr x \<Rightarrow> if x \<in> set items then Some x else None | _ \<Rightarrow> None)"

definition in_range :: "'a::linorder option \<Rightarrow> 'a option \<Rightarrow> 'a \<Rightarrow> bool" where
  "in_range lo hi x =
     ((case lo of None \<Rightarrow> True | Some l \<Rightarrow> l \<le> x) \<and> (case hi of None \<Rightarrow> True | Some h \<Rightarrow> x \<le> h))"

definition IntProperty :: "int \<Rightarrow> int \<Rightarrow> pyval \<Rightarrow> int option" where
  "IntProperty lo hi v =
     (case v of PInt i \<Rightarrow> if in_range (Some lo) (Some hi) i then Some i else None | _ \<Rightarrow> None)"

definition FloatProperty :: "rat \<Rightarrow> rat \<Rightarrow> pyval \<Rightarrow> rat option" where
  "FloatProperty lo hi v =
     (case v of PFloat x \<Rightarrow> if in_range (Some lo) (Some hi) x then Some x else None | _ \<Rightarrow> None)"

definition FloatVectorProperty :: "nat \<Rightarrow> rat option \<Rightarrow> rat option \<Rightarrow> pyval \<Rightarrow> rat list option" where
  "FloatVectorProperty n lo hi v =
     (case v of
        PVec xs \<Rightarrow> if length xs = n \<and> list_all (in_range lo hi) xs then Some xs else None
      | _ \<Rightarrow> None)"

definition preset_items :: "string list" where
  "preset_items = [''CANDLE'', ''TORCH'', ''CAMPFIRE'', ''BONFIRE'', ''EXPLOSION'']"

text \<open>\<^verbatim>\<open>hasattr(settings, k)\<close>: the names the class declares.\<close>

definition settings_fields :: "string list" where
  "settings_fields =
     [''preset'', ''domain_object_name'', ''emitter_object_name'', ''ui_show_advanced'',
      ''apply_scale_on_update'', ''domain_size'', ''emitter_scale'', ''resolution_max'',
      ''time_scale'', ''vorticity'', ''use_adaptive_domain'', ''adaptive_margin'',
      ''adaptive_additional_res'', ''use_noise'', ''noise_strength'', ''noise_scale'',
      ''use_dissolve_smoke'', ''dissolve_speed'', ''burning_rate'', ''flame_smoke'',
      ''flow_density'', ''flow_temperature'', ''flow_fuel'', ''use_initial_velocity'',
      ''velocity_factor'', ''flame_strength'', ''smoke_density'', ''flame_color_low'',
      ''flame_color_mid'', ''flame_color_high'', ''cache_directory'']"

definition hasattr_settings :: "string \<Rightarrow> bool" where
  "hasattr_settings k = (k \<in> set settings_fields)"

text \<open>\<^verbatim>\<open>getattr(settings, k)\<close>; \<open>None\<close> for a name the class does not declare.\<close>

definition getattr_settings :: "FIREVFX_Settings \<Rightarrow> string \<Rightarrow> pyval option" where
  "getattr_settings s k =
    (if k = ''preset'' then Some (PStr (preset s))
     else if k = ''domain_object_name'' then Some (PStr (domain_object_name s))
     else if k = ''emitter_object_name'' then Some (PStr (emitter_object_name s))
     else if k = ''ui_show_advanced'' then Some (PBool (ui_show_advanced s))
     else if k = ''apply_scale_on_update'' then Some (PBool (apply_scale_on_update s))
     else if k = ''domain_size'' then Some (PVec (domain_size s))
     else if k = ''emitter_scale'' then Some (PVec (emitter_scale s))
     else if k = ''resolution_max'' then Some (PInt (resolution_max s))
     else if k = ''time_scale'' then Some (PFloat (time_scale s))
     else if k = ''vorticity'' then Some (PFloat (vorticity s))
     else if k = ''use_adaptive_domain'' then Some (PBool (use_adaptive_domain s))
     else if k = ''adaptive_margin'' then Some (PInt (adaptive_margin s))
     else if k = ''adaptive_additional_res'' then Some (PInt (adaptive_additional_res s))
     else if k = ''use_noise'' then Some (PBool (use_noise s))
     else if k = ''noise_strength'' then Some (PFloat (noise_strength s))
     else if k = ''noise_scale'' then Some (PFloat (noise_scale s))
     else if k = ''use_dissolve_smoke'' then Some (PBool (use_dissolve_smoke s))
     else if k = ''dissolve_speed'' then Some (PInt (dissolve_speed s))
     else if k = ''burning_rate'' then Some (PFloat (burning_rate s))
     else if k = ''flame_smoke'' then Some (PFloat (flame_smoke s))
     else if k = ''flow_density'' then Some (PFloat (flow_density s))
     else if k = ''flow_temperature'' then Some (PFloat (flow_temperature s))
     else if k = ''flow_fuel'' then Some (PFloat (flow_fuel s))
     else if k = ''use_initial_velocity'' then Some (PBool (use_initial_velocity s))
     else if k = ''velocity_factor'' then Some (PFloat (velocity_factor s))
     else if k = ''flame_strength'' then Some (PFloat (flame_strength s))
     else if k = ''smoke_density'' then Some (PFloat (smoke_density s))
     else if k = ''flame_color_low'' then Some (PVec (flame_color_low s))
     else if k = ''flame_color_mid'' then Some (PVec (flame_color_mid s))
     else if k = ''flame_color_high'' then Some (PVec (flame_color_high s))
     else if k = ''cache_directory'' then Some (PStr (cache_directory s))
     else None)"

text \<open>
  \<^verbatim>\<open>setattr(settings, k, v)\<close> as the property declarations of the class decide it:
  \<open>None\<close> when the write raises. The update callback of \<open>preset\<close> is not part of the
  write; it is \<open>_preset_update\<close> below, run by \<open>set_preset\<close>.
\<close>

definition setattr_settings :: "string \<Rightarrow> pyval \<Rightarrow> FIREVFX_Settings \<Rightarrow> FIREVFX_Settings option" where
  "setattr_settings k v s =
    (if k = ''preset'' then map_option (\<lambda>x. s\<lparr>preset := x\<rparr>) (EnumProperty preset_items v)
     else if k = ''domain_object_name'' then map_option (\<lambda>x. s\<lparr>domain_object_name := x\<rparr>) (StringProperty v)
     else if k = ''emitter_object_name'' then map_option (\<lambda>x. s\<lparr>emitter_object_name := x\<rparr>) (StringProperty v)
     else if k = ''ui_show_advanced'' then map_option (\<lambda>x. s\<lparr>ui_show_advanced := x\<rparr>) (BoolProperty v)
     else if k = ''apply_scale_on_update'' then map_option (\<lambda>x. s\<lparr>apply_scale_on_update := x\<rparr>) (BoolProperty v)
     else if k = ''domain_size'' then map_option (\<lambda>x. s\<lparr>domain_size := x\<rparr>) (FloatVectorProperty 3 (Some 0.1) None v)
     else if k = ''emitter_scale'' then map_option (\<lambda>x. s\<lparr>emitter_scale := x\<rparr>) (FloatVectorProperty 3 (Some 0.001) None v)
     else if k = ''resolution_max'' then map_option (\<lambda>x. s\<lparr>resolution_max := x\<rparr>) (IntProperty 16 1024 v)
     else if k = ''time_scale'' then map_option (\<lambda>x. s\<lparr>time_scale := x\<rparr>) (FloatProperty 0.05 3.0 v)
     else if k = ''vorticity'' then map_option (\<lambda>x. s\<lparr>vorticity := x\<rparr>) (FloatProperty 0.0 10.0 v)
     else if k = ''use_adaptive_domain'' then map_option (\<lambda>x. s\<lparr>use_adaptive_domain := x\<rparr>) (BoolProperty v)
     else if k = ''adaptive_margin'' then map_option (\<lambda>x. s\<lparr>adaptive_margin := x\<rparr>) (IntProperty 0 50 v)
     else if k = ''adaptive_additional_res'' then map_option (\<lambda>x. s\<lparr>adaptive_additional_res := x\<rparr>) (IntProperty 0 256 v)
     else if k = ''use_noise'' then map_option (\<lambda>x. s\<lparr>use_noise := x\<rparr>) (BoolProperty v)
     else if k = ''noise_strength'' then map_option (\<lambda>x. s\<lparr>noise_strength := x\<rparr>) (FloatProperty 0.0 10.0 v)
     else if k = ''noise_scale'' then map_option (\<lambda>x. s\<lparr>noise_scale := x\<rparr>) (FloatProperty 0.1 20.0 v)
     else if k = ''use_dissolve_smoke'' then map_option (\<lambda>x. s\<lparr>use_dissolve_smoke := x\<rparr>) (BoolProperty v)
     else if k = ''dissolve_speed'' then map_option (\<lambda>x. s\<lparr>dissolve_speed := x\<rparr>) (IntProperty 1 100 v)
     else if k = ''burning_rate'' then map_option (\<lambda>x. s\<lparr>burning_rate := x\<rparr>) (FloatProperty 0.0 10.0 v)
     else if k = ''flame_smoke'' then map_option (\<lambda>x. s\<lparr>flame_smoke := x\<rparr>) (FloatProperty 0.0 5.0 v)
     else if k = ''flow_density'' then map_option (\<lambda>x. s\<lparr>flow_density := x\<rparr>) (FloatProperty 0.0 10.0 v)
     else if k = ''flow_temperature'' then map_option (\<lambda>x. s\<lparr>flow_temperature := x\<rparr>) (FloatProperty 0.0 10.0 v)
     else if k = ''flow_fuel'' then map_option (\<lambda>x. s\<lparr>flow_fuel := x\<rparr>) (FloatProperty 0.0 10.0 v)
     else if k = ''use_initial_velocity'' then map_option (\<lambda>x. s\<lparr>use_initial_velocity := x\<rparr>) (BoolProperty v)
     else if k = ''velocity_factor'' then map_option (\<lambda>x. s\<lparr>velocity_factor := x\<rparr>) (FloatProperty 0.0 10.0 v)
     else if k = ''flame_strength'' then map_option (\<lambda>x. s\<lparr>flame_strength := x\<rparr>) (FloatProperty 0.0 500.0 v)
     else if k = ''smoke_density'' then map_option (\<lambda>x. s\<lparr>smoke_density := x\<rparr>) (FloatProperty 0.0 50.0 v)
     else if k = ''flame_color_low'' then map_option (\<lambda>x. s\<lparr>flame_color_low := x\<rparr>) (FloatVectorProperty 4 (Some 0.0) (Some 1.0) v)
     else if k = ''flame_color_mid'' then map_option (\<lambda>x. s\<lparr>flame_color_mid := x\<rparr>) (FloatVectorProperty 4 (Some 0.0) (Some 1.0) v)
     else if k = ''flame_color_high'' then map_option (\<lambda>x. s\<lparr>flame_color_high := x\<rparr>) (FloatVectorProperty 4 (Some 0.0) (Some 1.0) v)
     else if k = ''cache_directory'' then map_option (\<lambda>x. s\<lparr>cache_directory := x\<rparr>) (StringProperty v)
     else None)"

section \<open>Presets\<close>

text \<open>The tables are dict literals; their items are kept in the order written.\<close>

definition BASE_PRESET :: "(string \<times> pyval) list" where
  "BASE_PRESET =
    [(''domain_size'', PVec [2.0, 2.0, 3.0]),
     (''emitter_scale'', PVec [0.07, 0.07, 0.25]),
     (''resolution_max'', PInt 96),
     (''time_scale'', PFloat 1.0),
     (''vorticity'', PFloat 0.7),
     (''use_adaptive_domain'', PBool True),
     (''adaptive_margin'', PInt 4),
     (''adaptive_additional_res'', PInt 0),
     (''use_noise'', PBool False),
     (''noise_strength'', PFloat 1.0),
     (''noise_scale'', PFloat 2.5),
     (''use_dissolve_smoke'', PBool False),
     (''dissolve_speed'', PInt 30),
     (''burning_rate'', PFloat 1.2),
     (''flame_smoke'', PFloat 0.18),
     (''flow_density'', PFloat 1.0),
     (''flow_temperature'', PFloat 1.25),
     (''flow_fuel'', PFloat 1.15),
     (''use_initial_velocity'', PBool True),
     (''velocity_factor'', PFloat 1.2),
     (''flame_strength'', PFloat 35.0),
     (''smoke_density'', PFloat 2.0),
     (''flame_color_low'', PVec [0.07, 0.01, 0.0, 1.0]),
     (''flame_color_mid'', PVec [1.0, 0.42, 0.08, 1.0]),
     (''flame_color_high'', PVec [1.0, 0.95, 0.85, 1.0])]"

definition CANDLE :: "(string \<times> pyval) list" where
  "CANDLE =
    [(''domain_size'', PVec [1.5, 1.5, 2.5]),
     (''emitter_scale'', PVec [0.04, 0.04, 0.10]),
     (''resolution_max'', PInt 80),
     (''vorticity'', PFloat 0.25),
     (''use_noise'', PBool True),
     (''noise_strength'', PFloat 0.4),
     (''noise_scale'', PFloat 2.0),
     (''burning_rate'', PFloat 0.8),
     (''flame_smoke'', PFloat 0.05),
     (''flow_density'', PFloat 0.6),
     (''flow_temperature'', PFloat 1.0),
     (''flow_fuel'', PFloat 1.0),
     (''flame_strength'', PFloat 18.0),
     (''smoke_density'', PFloat 0.8),
     (''use_dissolve_smoke'', PBool True),
     (''dissolve_speed'', PInt 35),
     (''use_initial_velocity'', PBool False),
     (''velocity_factor'', PFloat 1.0),
     (''flame_color_mid'', PVec [1.0, 0.55, 0.12, 1.0]),
     (''flame_color_high'', PVec [1.0, 1.0, 1.0, 1.0])]"

definition TORCH :: "(string \<times> pyval) list" where
  "TORCH =
    [(''resolution_max'', PInt 112),
     (''vorticity'', PFloat 0.8),
     (''use_noise'', PBool True),
     (''noise_strength'', PFloat 1.0),
     (''noise_scale'', PFloat 2.5),
     (''velocity_factor'', PFloat 1.5)]"

definition CAMPFIRE :: "(string \<times> pyval) list" where
  "CAMPFIRE =
    [(''domain_size'', PVec [4.0, 4.0, 4.0]),
     (''emitter_scale'', PVec [0.45, 0.45, 0.18]),
     (''resolution_max'', PInt 144),
     (''vorticity'', PFloat 1.5),
     (''use_noise'', PBool True),
     (''noise_strength'', PFloat 1.6),
     (''noise_scale'', PFloat 3.0),
     (''burning_rate'', PFloat 1.6),
     (''flame_smoke'', PFloat 0.35),
     (''flow_density'', PFloat 1.2),
     (''flow_temperature'', PFloat 1.35),
     (''flow_fuel'', PFloat 1.3),
     (''flame_strength'', PFloat 55.0),
     (''smoke_density'', PFloat 3.0),
     (''velocity_factor'', PFloat 1.0),
     (''flame_color_mid'', PVec [1.0, 0.38, 0.06, 1.0])]"

definition BONFIRE :: "(string \<times> pyval) list" where
  "BONFIRE =
    [(''domain_size'', PVec [7.0, 7.0, 7.0]),
     (''emitter_scale'', PVec [0.9, 0.9, 0.35]),
     (''resolution_max'', PInt 160),
     (''vorticity'', PFloat 2.2),
     (''use_noise'', PBool True),
     (''noise_strength'', PFloat 2.0),
     (''noise_scale'', PFloat 3.5),
     (''burning_rate'', PFloat 2.1),
     (''flame_smoke'', PFloat 0.55),
     (''flow_density'', PFloat 1.4),
     (''flow_temperature'', PFloat 1.5),
     (''flow_fuel'', PFloat 1.5),
     (''flame_strength'', PFloat 75.0),
     (''smoke_density'', PFloat 4.2),
     (''velocity_factor'', PFloat 1.2),
     (''flame_color_mid'', PVec [1.0, 0.30, 0.05, 1.0]),
     (''flame_color_high'', PVec [1.0, 0.9, 0.8, 1.0])]"

definition EXPLOSION :: "(string \<times> pyval) list" where
  "EXPLOSION =
    [(''domain_size'', PVec [10.0, 10.0, 10.0]),
     (''emitter_scale'', PVec [0.6, 0.6, 0.6]),
     (''resolution_max'', PInt 176),
     (''time_scale'', PFloat 0.85),
     (''vorticity'', PFloat 3.0),
     (''use_noise'', PBool True),
     (''noise_strength'', PFloat 3.0),
     (''noise_scale'', PFloat 4.0),
     (''burning_rate'', PFloat 3.0),
     (''flame_smoke'', PFloat 0.9),
     (''flow_density'', PFloat 2.0),
     (''flow_temperature'', PFloat 2.0),
     (''flow_fuel'', PFloat 2.0),
     (''flame_strength'', PFloat 120.0),
     (''smoke_density'', PFloat 6.0),
     (''use_dissolve_smoke'', PBool True),
     (''dissolve_speed'', PInt 18),
     (''velocity_factor'', PFloat 2.0),
     (''flame_color_low'', PVec [0.10, 0.02, 0.0, 1.0]),
     (''flame_color_mid'', PVec [1.0, 0.22, 0.03, 1.0]),
     (''flame_color_high'', PVec [1.0, 0.85, 0.65, 1.0])]"

definition PRESET_OVERRIDES :: "(string \<times> (string \<times> pyval) list) list" where
  "PRESET_OVERRIDES =
    [(''CANDLE'', CANDLE), (''TORCH'', TORCH), (''CAMPFIRE'', CAMPFIRE),
     (''BONFIRE'', BONFIRE), (''EXPLOSION'', EXPLOSION)]"

text \<open>\<^verbatim>\<open>PRESET_OVERRIDES.get(preset_id, {})\<close>\<close>

definition overrides_get :: "string \<Rightarrow> (string \<times> pyval) list" where
  "overrides_get preset_id = (case map_of PRESET_OVERRIDES preset_id of Some d \<Rightarrow> d | None \<Rightarrow> [])"

text \<open>
  One pass of \<^verbatim>\<open>for k, v in table.items(): if hasattr(settings, k): try: setattr(...)
  except Exception: pass\<close>.
\<close>

fun apply_items :: "(string \<times> pyval) list \<Rightarrow> FIREVFX_Settings \<Rightarrow> FIREVFX_Settings" where
  "apply_items [] s = s"
| "apply_items ((k, v) # kvs) s =
     apply_items kvs
       (if hasattr_settings k
        then (case setattr_settings k v s of Some s' \<Rightarrow> s' | None \<Rightarrow> s)
        else s)"

definition apply_preset_to_settings :: "FIREVFX_Settings \<Rightarrow> string \<Rightarrow> FIREVFX_Settings" where
  "apply_preset_to_settings settings preset_id =
     apply_items (overrides_get preset_id) (apply_items BASE_PRESET settings)"

definition preset_update_callback :: "FIREVFX_Settings \<Rightarrow> FIREVFX_Settings" where
  "preset_update_callback self = apply_preset_to_settings self (preset self)"

text \<open>An assignment to \<open>settings.preset\<close>: the write, then its update callback.\<close>

definition set_preset :: "string \<Rightarrow> FIREVFX_Settings \<Rightarrow> FIREVFX_Settings option" where
  "set_preset p s = map_option preset_update_callback (setattr_settings ''preset'' (PStr p) s)"

text \<open>The record as the property declarations initialise it (each \<open>default=\<close>).\<close>

definition default_settings :: FIREVFX_Settings where
  "default_settings =
    \<lparr>preset = ''TORCH'', domain_object_name = [], emitter_object_name = [],
     ui_show_advanced = False, apply_scale_on_update = False,
     domain_size = [2.0, 2.0, 3.0], emitter_scale = [0.07, 0.07, 0.25],
     resolution_max = 96, time_scale = 1.0, vorticity = 0.8,
     use_adaptive_domain = True, adaptive_margin = 4, adaptive_additional_res = 0,
     use_noise = False, noise_strength = 1.0, noise_scale = 2.5,
     use_dissolve_smoke = False, dissolve_speed = 30,
     burning_rate = 1.2, flame_smoke = 0.18,
     flow_density = 1.0, flow_temperature = 1.25, flow_fuel = 1.15,
     use_initial_velocity = True, velocity_factor = 1.5,
     flame_strength = 35.0, smoke_density = 2.0,
     flame_color_low = [0.07, 0.01, 0.0, 1.0],
     flame_color_mid = [1.0, 0.42, 0.08, 1.0],
     flame_color_high = [1.0, 0.95, 0.85, 1.0],
     cache_directory = ''//fire_vfx_cache''\<rparr>"

section \<open>Color ramp reconciliation\<close>

text \<open>Exceptions of the interpreter and of the host that the add-on can meet.\<close>

datatype pyexc = RuntimeError | IndexError | TypeError | AttributeError

text \<open>
  A stop of a host color ramp. The host's collection of stops is modelled by the list of
  its elements in index order. Its operations are the host's, not the add-on's:
  \<^item> \<^verbatim>\<open>elements.new(position)\<close> adds one stop, placed by position among the others, with
    a colour of the host's choice (\<open>hc\<close>); the host refuses a 33rd stop;
  \<^item> \<^verbatim>\<open>elements.remove(elements[-1])\<close> removes the last stop and raises when it is the
    only one left (the docstring of \<^verbatim>\<open>_set_color_ramp_elements\<close>);
  \<^item> a write to a stop raises for a position outside \<open>[0, 1]\<close> or a colour that has not
    four components.
\<close>

record ColorRampElement =
  position :: rat
  color :: "rat list"

definition elements_new ::
  "(ColorRampElement list \<Rightarrow> rat \<Rightarrow> rat list) \<Rightarrow> rat \<Rightarrow> ColorRampElement list \<Rightarrow>
     pyexc + ColorRampElement list" where
  "elements_new hc pos es =
     (if 32 \<le> length es then Inl RuntimeError
      else Inr (insort_key position \<lparr>position = pos, color = hc es pos\<rparr> es))"

definition elements_remove_last :: "ColorRampElement list \<Rightarrow> pyexc + ColorRampElement list" where
  "elements_remove_last es =
     (if es = [] then Inl IndexError
      else if length es = 1 then Inl RuntimeError
      else Inr (butlast es))"

text \<open>\<^verbatim>\<open>while len(cr.elements) < len(desired): cr.elements.new(desired[len(cr.elements)][0])\<close>\<close>

function grow_elements ::
  "(ColorRampElement list \<Rightarrow> rat \<Rightarrow> rat list) \<Rightarrow> (rat \<times> rat list) list \<Rightarrow>
     ColorRampElement list \<Rightarrow> pyexc + ColorRampElement list" where
  "grow_elements hc desired es =
     (if length es < length desired
      then (case elements_new hc (fst (desired ! length es)) es of
              Inl e \<Rightarrow> Inl e
            | Inr es' \<Rightarrow> grow_elements hc desired es')
      else Inr es)"
  by pat_completeness auto
termination
  by (relation "measure (\<lambda>(hc, desired, es). length desired - length es)")
     (auto simp: elements_new_def split: if_splits)

text \<open>
  \<^verbatim>\<open>while len(cr.elements) > len(desired): try: cr.elements.remove(cr.elements[-1])
  except Exception: break\<close>
\<close>

function shrink_elements :: "nat \<Rightarrow> ColorRampElement list \<Rightarrow> ColorRampElement list" where
  "shrink_elements n es =
     (if n < length es
      then (case elements_remove_last es of
              Inl e \<Rightarrow> es
            | Inr es' \<Rightarrow> shrink_elements n es')
      else es)"
  by pat_completeness auto
termination
  by (relation "measure (\<lambda>(n, es). length es)")
     (auto simp: elements_remove_last_def split: if_splits)

text \<open>
  One pass of \<^verbatim>\<open>try: cr.elements[i].position = float(pos); cr.elements[i].color = col
  except Exception: pass\<close>: an index out of range changes nothing, a refused position
  changes nothing, a refused colour leaves the position written.
\<close>

definition write_element :: "rat \<Rightarrow> rat list \<Rightarrow> ColorRampElement \<Rightarrow> ColorRampElement" where
  "write_element pos col e =
     (if 0 \<le> pos \<and> pos \<le> 1
      then (if length col = 4 then e\<lparr>position := pos, color := col\<rparr> else e\<lparr>position := pos\<rparr>)
      else e)"

fun apply_values ::
  "nat \<Rightarrow> (rat \<times> rat list) list \<Rightarrow> ColorRampElement list \<Rightarrow> ColorRampElement list" where
  "apply_values i [] es = es"
| "apply_values i ((pos, col) # ds) es =
     apply_values (Suc i) ds
       (if i < length es then es[i := write_element pos col (es ! i)] else es)"

text \<open>
  \<^verbatim>\<open>_set_color_ramp_elements(color_ramp, elements)\<close>. The ramp is \<open>None\<close> when the node
  has none. An exception of \<^verbatim>\<open>elements.new\<close> is not caught by the source and leaves the
  function.
\<close>

definition set_color_ramp_elements ::
  "(ColorRampElement list \<Rightarrow> rat \<Rightarrow> rat list) \<Rightarrow> ColorRampElement list option \<Rightarrow>
     (rat \<times> rat list) list \<Rightarrow> pyexc + ColorRampElement list option" where
  "set_color_ramp_elements hc color_ramp desired =
     (case color_ramp of
        None \<Rightarrow> Inr None
      | Some cr \<Rightarrow>
          if desired = [] then Inr (Some cr)
          else
            (case (if length cr = 0 then elements_new hc 0 cr else Inr cr) of
               Inl e \<Rightarrow> Inl e
             | Inr cr1 \<Rightarrow>
                 (case grow_elements hc desired cr1 of
                    Inl e \<Rightarrow> Inl e
                  | Inr cr2 \<Rightarrow>
                      Inr (Some (apply_values 0 desired (shrink_elements (length desired) cr2))))))"

section \<open>Host objects and the simulation configurator\<close>

text \<open>
  A host struct is read and written by attribute name. Which names a struct has depends on
  the host version, so a struct is a finite map from the names it has to their values, and
  \<open>acc name value\<close> tells whether the host takes the write or raises.

  \<^verbatim>\<open>_set_if_has(obj, attr, value)\<close>: nothing for \<open>None\<close>, nothing for a name the struct has
  not, and an exception of the write is swallowed.
\<close>

type_synonym attrs = "string \<Rightarrow> pyval option"

definition set_if_has ::
  "(string \<Rightarrow> pyval \<Rightarrow> bool) \<Rightarrow> attrs option \<Rightarrow> string \<Rightarrow> pyval \<Rightarrow> attrs option" where
  "set_if_has acc obj attr v =
     (case obj of
        None \<Rightarrow> None
      | Some a \<Rightarrow>
          if a attr \<noteq> None
          then (if acc attr v then Some (a(attr \<mapsto> v)) else Some a)
          else Some a)"

text \<open>A run of \<^verbatim>\<open>_set_if_has\<close> calls on one struct, in the order written.\<close>

fun set_all_if_has ::
  "(string \<Rightarrow> pyval \<Rightarrow> bool) \<Rightarrow> (string \<times> pyval) list \<Rightarrow> attrs option \<Rightarrow> attrs option" where
  "set_all_if_has acc [] obj = obj"
| "set_all_if_has acc ((attr, v) # ws) obj = set_all_if_has acc ws (set_if_has acc obj attr v)"

text \<open>
  A modifier of an object. For a fluid modifier the host keeps the domain settings or the
  flow settings that belong to its \<open>fluid_type\<close>; the other one reads as \<open>None\<close>.
\<close>

record modifier =
  m_name :: string
  m_type :: string
  m_attrs :: attrs
  domain_settings :: "attrs option"
  flow_settings :: "attrs option"

text \<open>A mesh datablock: the primitive it was made from, the scale applied into it, its material slots.\<close>

record mesh =
  me_primitive :: string
  me_applied_scale :: "rat list"
  me_materials :: "nat list"

record bobject =
  o_name :: string
  o_location :: "rat list"
  o_scale :: "rat list"
  o_attrs :: attrs
  o_modifiers :: "modifier list"
  o_data :: "mesh option"
  o_selected :: bool


section \<open>The host document\<close>

text \<open>
  A node of a shader graph: its type, its place in the editor, the properties the add-on
  writes by name (\<open>attribute_name\<close>, \<open>operation\<close>), its color ramp if it has one, its
  input sockets with their default values (\<open>None\<close> for a socket that has no default
  value) and the names of its output sockets. A link joins an output socket to an input
  socket, each named by the index of its node and its own index.
\<close>

record socket =
  s_name :: string
  default_value :: "pyval option"

record node =
  bl_idname :: string
  n_location :: "int \<times> int"
  n_props :: attrs
  color_ramp :: "ColorRampElement list option"
  n_inputs :: "socket list"
  n_outputs :: "string list"

record link =
  from_node :: nat
  from_socket :: nat
  to_node :: nat
  to_socket :: nat

record node_tree =
  nodes :: "node list"
  links :: "link list"

record material =
  mat_name :: string
  use_nodes :: bool
  mat_tree :: node_tree

text \<open>
  The document. \<^verbatim>\<open>bpy.data.objects\<close>, \<^verbatim>\<open>bpy.data.collections\<close> and
  \<^verbatim>\<open>bpy.data.materials\<close> are lists of datablocks; a datablock is referred to by its
  index, which never changes because the add-on removes none. A collection holds the
  indices of its objects; \<open>scene_objects\<close> and \<open>scene_children\<close> are the objects and the
  collections of the scene's root collection. \<open>ops_log\<close> records the host operators
  (\<^verbatim>\<open>bpy.ops\<close>) invoked, in order, and \<open>baked\<close> whether a bake is cached.
\<close>

record collection =
  c_name :: string
  c_objects :: "nat list"

record document =
  objects :: "bobject list"
  collections :: "collection list"
  scene_objects :: "nat list"
  scene_children :: "nat list"
  materials :: "material list"
  active_object :: "nat option"
  fire_vfx_settings :: FIREVFX_Settings
  ops_log :: "string list"
  baked :: bool

text \<open>
  What the add-on needs from the host: which writes each struct takes, the settings
  structs the host allocates for a fluid modifier, the node it creates for a type name
  (\<open>None\<close> for a type it does not know), the node tree a material gets when nodes are
  first enabled, the colour it gives a new ramp stop, and whether each operator that the
  add-on calls inside \<^verbatim>\<open>try\<close> raises in a given document (for bake and free, with the
  message of the exception).
\<close>

record host =
  accepts :: "string \<Rightarrow> string \<Rightarrow> pyval \<Rightarrow> bool"
  domain_defaults :: attrs
  flow_defaults :: attrs
  node_template :: "string \<Rightarrow> node option"
  default_tree :: node_tree
  ramp_color :: "ColorRampElement list \<Rightarrow> rat \<Rightarrow> rat list"
  transform_apply_raises :: "document \<Rightarrow> bool"
  select_all_raises :: "document \<Rightarrow> bool"
  bake_all_raises :: "document \<Rightarrow> string option"
  free_all_raises :: "document \<Rightarrow> string option"


section \<open>The simulation configurator\<close>

text \<open>The first index at which a list has an element with the property.\<close>

fun index_of :: "('a \<Rightarrow> bool) \<Rightarrow> 'a list \<Rightarrow> nat option" where
  "index_of P [] = None"
| "index_of P (x # xs) = (if P x then Some 0 else map_option Suc (index_of P xs))"

text \<open>A new fluid modifier: its type is \<open>NONE\<close> and it has neither settings struct yet.\<close>

definition fluid_NONE :: modifier where
  "fluid_NONE = \<lparr>m_name = ''Fluid'', m_type = ''FLUID'', m_attrs = [''fluid_type'' \<mapsto> PStr ''NONE''],
     domain_settings = None, flow_settings = None\<rparr>"

text \<open>
  \<^verbatim>\<open>obj.modifiers.new(name="Fluid", type="FLUID")\<close>: on an object that takes modifiers
  the host appends a new fluid modifier and returns it. An object without data (an empty)
  takes no modifiers: the host adds nothing and returns \<open>None\<close>, without raising.
\<close>

definition modifiers_new_fluid :: "bobject \<Rightarrow> (nat \<times> bobject) option" where
  "modifiers_new_fluid ob =
     (if o_data ob = None then None
      else Some (length (o_modifiers ob), ob\<lparr>o_modifiers := o_modifiers ob @ [fluid_NONE]\<rparr>))"

text \<open>
  \<^verbatim>\<open>_ensure_fluid_modifier(obj)\<close>. The modifier returned is named by its index in the
  object's modifier list, with the object as the call leaves it; \<open>None\<close> is the \<open>None\<close>
  of the source, for no object and for an object the host gives no modifier.
\<close>

definition ensure_fluid_modifier :: "bobject option \<Rightarrow> (nat \<times> bobject) option" where
  "ensure_fluid_modifier obj =
     (case obj of
        None \<Rightarrow> None
      | Some ob \<Rightarrow>
          (case index_of (\<lambda>m. m_type m = ''FLUID'') (o_modifiers ob) of
             Some i \<Rightarrow> Some (i, ob)
           | None \<Rightarrow> modifiers_new_fluid ob))"

text \<open>
  \<^verbatim>\<open>_set_if_has(mod, "fluid_type", t)\<close> with what the host does on that write: it keeps
  the settings struct of the new type if the modifier has it already, allocates it with
  the host's defaults otherwise, and drops the struct of the other type.
\<close>

definition set_fluid_type :: "host \<Rightarrow> string \<Rightarrow> modifier \<Rightarrow> modifier" where
  "set_fluid_type H t m =
     (if m_attrs m ''fluid_type'' \<noteq> None \<and> accepts H ''FluidModifier'' ''fluid_type'' (PStr t)
      then
        (let m' = m\<lparr>m_attrs := (m_attrs m)(''fluid_type'' \<mapsto> PStr t)\<rparr> in
         if t = ''DOMAIN''
         then m'\<lparr>domain_settings :=
                   Some (case domain_settings m of Some ds \<Rightarrow> ds | None \<Rightarrow> domain_defaults H),
                 flow_settings := None\<rparr>
         else if t = ''FLOW''
         then m'\<lparr>domain_settings := None,
                 flow_settings :=
                   Some (case flow_settings m of Some fs \<Rightarrow> fs | None \<Rightarrow> flow_defaults H)\<rparr>
         else m'\<lparr>domain_settings := None, flow_settings := None\<rparr>)
      else m)"

text \<open>The writes of \<^verbatim>\<open>_apply_domain_settings\<close> to the domain settings, in order.\<close>

definition domain_writes :: "FIREVFX_Settings \<Rightarrow> (string \<times> pyval) list" where
  "domain_writes settings =
    [(''domain_type'', PStr ''GAS''),
     (''cache_directory'', PStr (cache_directory settings)),
     (''cache_type'', PStr ''MODULAR''),
     (''resolution_max'', PInt (resolution_max settings)),
     (''time_scale'', PFloat (time_scale settings)),
     (''vorticity'', PFloat (vorticity settings)),
     (''use_adaptive_domain'', PBool (use_adaptive_domain settings)),
     (''additional_res'', PInt (adaptive_additional_res settings)),
     (''adapt_margin'', PInt (adaptive_margin settings)),
     (''use_noise'', PBool (use_noise settings)),
     (''noise_strength'', PFloat (noise_strength settings)),
     (''noise_scale'', PFloat (noise_scale settings)),
     (''use_dissolve_smoke'', PBool (use_dissolve_smoke settings)),
     (''dissolve_speed'', PInt (dissolve_speed settings)),
     (''use_reaction'', PBool True),
     (''burning_rate'', PFloat (burning_rate settings)),
     (''flame_smoke'', PFloat (flame_smoke settings))]"

text \<open>
  What the host does to the object when \<^verbatim>\<open>_set_if_has(ds, "domain_type", "GAS")\<close> writes:
  its setter of \<open>domain_type\<close> also sets the display type of the object that owns the
  modifier, to \<open>WIRE\<close> for a gas domain. Nothing happens when the struct has no
  \<open>domain_type\<close> or the host refuses the write.
\<close>

definition domain_type_display :: "host \<Rightarrow> attrs \<Rightarrow> bobject \<Rightarrow> bobject" where
  "domain_type_display H ds ob =
     (if ds ''domain_type'' \<noteq> None \<and>
         accepts H ''FluidDomainSettings'' ''domain_type'' (PStr ''GAS'')
      then ob\<lparr>o_attrs := (o_attrs ob)(''display_type'' \<mapsto> PStr ''WIRE'')\<rparr>
      else ob)"

text \<open>
  \<^verbatim>\<open>_apply_domain_settings(domain_obj, settings)\<close>: the object as the call leaves it
  (\<open>None\<close> for no object). It returns early, leaving the object alone, when there is no
  modifier, and after the write of \<open>fluid_type\<close> when the modifier has no domain settings.
\<close>

definition apply_domain_settings :: "host \<Rightarrow> bobject option \<Rightarrow> FIREVFX_Settings \<Rightarrow> bobject option" where
  "apply_domain_settings H domain_obj settings =
     (case ensure_fluid_modifier domain_obj of
        None \<Rightarrow> domain_obj
      | Some (i, ob) \<Rightarrow>
          (let m = set_fluid_type H ''DOMAIN'' (o_modifiers ob ! i) in
           case domain_settings m of
             None \<Rightarrow> Some (ob\<lparr>o_modifiers := (o_modifiers ob)[i := m]\<rparr>)
           | Some ds \<Rightarrow>
               Some ((domain_type_display H ds ob)
                      \<lparr>o_modifiers := (o_modifiers ob)
                        [i := m\<lparr>domain_settings :=
                                  set_all_if_has (accepts H ''FluidDomainSettings'')
                                    (domain_writes settings) (Some ds)\<rparr>]\<rparr>)))"

text \<open>
  \<^verbatim>\<open>if hasattr(fs, "flow_type"): try: fs.flow_type = "FIRE" except Exception: try:
  fs.flow_type = "SMOKE" except Exception: pass\<close>
\<close>

definition set_flow_type :: "(string \<Rightarrow> pyval \<Rightarrow> bool) \<Rightarrow> attrs \<Rightarrow> attrs" where
  "set_flow_type acc fs =
     (if fs ''flow_type'' \<noteq> None
      then (if acc ''flow_type'' (PStr ''FIRE'') then fs(''flow_type'' \<mapsto> PStr ''FIRE'')
            else if acc ''flow_type'' (PStr ''SMOKE'') then fs(''flow_type'' \<mapsto> PStr ''SMOKE'')
            else fs)
      else fs)"

definition flow_writes :: "FIREVFX_Settings \<Rightarrow> (string \<times> pyval) list" where
  "flow_writes settings =
    [(''flow_behavior'', PStr ''INFLOW''),
     (''density'', PFloat (flow_density settings)),
     (''temperature'', PFloat (flow_temperature settings)),
     (''fuel_amount'', PFloat (flow_fuel settings)),
     (''use_initial_velocity'', PBool (use_initial_velocity settings)),
     (''velocity_factor'', PFloat (velocity_factor settings))]"

definition apply_flow_settings :: "host \<Rightarrow> bobject option \<Rightarrow> FIREVFX_Settings \<Rightarrow> bobject option" where
  "apply_flow_settings H emitter_obj settings =
     (case ensure_fluid_modifier emitter_obj of
        None \<Rightarrow> emitter_obj
      | Some (i, ob) \<Rightarrow>
          (let m = set_fluid_type H ''FLOW'' (o_modifiers ob ! i) in
           case flow_settings m of
             None \<Rightarrow> Some (ob\<lparr>o_modifiers := (o_modifiers ob)[i := m]\<rparr>)
           | Some fs \<Rightarrow>
               Some (ob\<lparr>o_modifiers := (o_modifiers ob)
                        [i := m\<lparr>flow_settings :=
                                  set_all_if_has (accepts H ''FluidFlowSettings'')
                                    (flow_writes settings)
                                    (Some (set_flow_type (accepts H ''FluidFlowSettings'') fs))\<rparr>]\<rparr>)))"

text \<open>The number of fluid modifiers of an object.\<close>

definition fluid_count :: "bobject \<Rightarrow> nat" where
  "fluid_count ob = length (filter (\<lambda>m. m_type m = ''FLUID'') (o_modifiers ob))"

text \<open>A new mesh object, and an empty: an object without data.\<close>

definition bare_object :: bobject where
  "bare_object = \<lparr>o_name = ''Cube'', o_location = [0, 0, 0], o_scale = [1, 1, 1],
     o_attrs = [''display_type'' \<mapsto> PStr ''TEXTURED''], o_modifiers = [],
     o_data = Some \<lparr>me_primitive = ''Cube'', me_applied_scale = [1, 1, 1], me_materials = []\<rparr>,
     o_selected = False\<rparr>"

definition empty_object :: bobject where
  "empty_object = \<lparr>o_name = ''Empty'', o_location = [0, 0, 0], o_scale = [1, 1, 1],
     o_attrs = [''display_type'' \<mapsto> PStr ''TEXTURED''], o_modifiers = [],
     o_data = None, o_selected = False\<rparr>"

section \<open>The shader builder\<close>

definition COLLECTION_NAME :: string where "COLLECTION_NAME = ''FireVFX''"
definition DOMAIN_NAME :: string where "DOMAIN_NAME = ''FireVFX_Domain''"
definition EMITTER_NAME :: string where "EMITTER_NAME = ''FireVFX_Emitter''"
definition MATERIAL_NAME :: string where "MATERIAL_NAME = ''FireVFX_Volume''"

text \<open>
  A step on a node tree either returns a value or raises; in both cases it leaves the
  tree as far as it got. \<open>nt_bind\<close> is the sequence of two statements: an exception of
  the first skips the second.
\<close>

type_synonym 'a nt_step = "node_tree \<Rightarrow> (pyexc + 'a) \<times> node_tree"

definition nt_bind :: "'a nt_step \<Rightarrow> ('a \<Rightarrow> 'b nt_step) \<Rightarrow> 'b nt_step" where
  "nt_bind m f t = (case m t of (Inl e, t') \<Rightarrow> (Inl e, t') | (Inr x, t') \<Rightarrow> f x t')"

text \<open>\<^verbatim>\<open>nodes.clear()\<close>: the host removes every node, and with the nodes their links.\<close>

definition nodes_clear :: "unit nt_step" where
  "nodes_clear t = (Inr (), \<lparr>nodes = [], links = []\<rparr>)"

text \<open>\<^verbatim>\<open>nodes.new(type)\<close>: the new node is the last of the tree.\<close>

definition nodes_new :: "host \<Rightarrow> string \<Rightarrow> nat nt_step" where
  "nodes_new H ty t =
     (case node_template H ty of
        None \<Rightarrow> (Inl RuntimeError, t)
      | Some n \<Rightarrow> (Inr (length (nodes t)), t\<lparr>nodes := nodes t @ [n]\<rparr>))"

definition update_node :: "nat \<Rightarrow> (node \<Rightarrow> node) \<Rightarrow> node_tree \<Rightarrow> node_tree" where
  "update_node i f t = t\<lparr>nodes := (nodes t)[i := f (nodes t ! i)]\<rparr>"

text \<open>\<^verbatim>\<open>node.location = (x, y)\<close>\<close>

definition set_location :: "nat \<Rightarrow> int \<times> int \<Rightarrow> unit nt_step" where
  "set_location i loc t = (Inr (), update_node i (\<lambda>n. n\<lparr>n_location := loc\<rparr>) t)"

text \<open>\<^verbatim>\<open>node.attr = value\<close> for a property written by name: a node without it raises.\<close>

definition set_prop :: "nat \<Rightarrow> string \<Rightarrow> pyval \<Rightarrow> unit nt_step" where
  "set_prop i attr v t =
     (if n_props (nodes t ! i) attr = None then (Inl AttributeError, t)
      else (Inr (), update_node i (\<lambda>n. n\<lparr>n_props := (n_props n)(attr \<mapsto> v)\<rparr>) t))"

text \<open>\<^verbatim>\<open>node.inputs[k].default_value = value\<close>\<close>

definition set_input_default :: "nat \<Rightarrow> nat \<Rightarrow> pyval \<Rightarrow> unit nt_step" where
  "set_input_default i k v t =
     (if length (n_inputs (nodes t ! i)) \<le> k then (Inl IndexError, t)
      else if default_value (n_inputs (nodes t ! i) ! k) = None then (Inl AttributeError, t)
      else (Inr (),
            update_node i
              (\<lambda>n. n\<lparr>n_inputs := (n_inputs n)[k := (n_inputs n ! k)\<lparr>default_value := Some v\<rparr>]\<rparr>) t))"

text \<open>
  \<^verbatim>\<open>_set_if_has(node.inputs.get(name), "default_value", value)\<close>: nothing when the node
  has no such input, when the socket has no default value, or when the host refuses the
  write.
\<close>

definition set_input_if_has :: "host \<Rightarrow> nat \<Rightarrow> string \<Rightarrow> pyval \<Rightarrow> unit nt_step" where
  "set_input_if_has H i name v t =
     (case index_of (\<lambda>s. s_name s = name) (n_inputs (nodes t ! i)) of
        None \<Rightarrow> (Inr (), t)
      | Some k \<Rightarrow>
          if default_value (n_inputs (nodes t ! i) ! k) \<noteq> None \<and>
             accepts H ''NodeSocket'' ''default_value'' v
          then (Inr (),
                update_node i
                  (\<lambda>n. n\<lparr>n_inputs := (n_inputs n)[k := (n_inputs n ! k)\<lparr>default_value := Some v\<rparr>]\<rparr>) t)
          else (Inr (), t))"

text \<open>
  Socket lookups: \<^verbatim>\<open>node.outputs[k]\<close> and \<^verbatim>\<open>node.inputs[k]\<close> raise out of range,
  \<^verbatim>\<open>node.outputs.get(name)\<close> and \<^verbatim>\<open>node.inputs.get(name)\<close> give \<open>None\<close> for an unknown name.
\<close>

definition output_at :: "nat \<Rightarrow> nat \<Rightarrow> (nat \<times> nat) option nt_step" where
  "output_at i k t =
     (if k < length (n_outputs (nodes t ! i)) then (Inr (Some (i, k)), t) else (Inl IndexError, t))"

definition input_at :: "nat \<Rightarrow> nat \<Rightarrow> (nat \<times> nat) option nt_step" where
  "input_at i k t =
     (if k < length (n_inputs (nodes t ! i)) then (Inr (Some (i, k)), t) else (Inl IndexError, t))"

definition output_get :: "nat \<Rightarrow> string \<Rightarrow> (nat \<times> nat) option nt_step" where
  "output_get i name t =
     (Inr (map_option (Pair i) (index_of (\<lambda>s. s = name) (n_outputs (nodes t ! i)))), t)"

definition input_get :: "nat \<Rightarrow> string \<Rightarrow> (nat \<times> nat) option nt_step" where
  "input_get i name t =
     (Inr (map_option (Pair i) (index_of (\<lambda>s. s_name s = name) (n_inputs (nodes t ! i)))), t)"

text \<open>\<^verbatim>\<open>links.new(a, b)\<close>: the host raises when a socket is \<open>None\<close>.\<close>

definition links_new :: "(nat \<times> nat) option \<Rightarrow> (nat \<times> nat) option \<Rightarrow> unit nt_step" where
  "links_new a b t =
     (case (a, b) of
        (Some (fn, fs), Some (tn, ts)) \<Rightarrow>
          (Inr (), t\<lparr>links := links t @
             [\<lparr>from_node = fn, from_socket = fs, to_node = tn, to_socket = ts\<rparr>]\<rparr>)
      | _ \<Rightarrow> (Inl TypeError, t))"

text \<open>\<^verbatim>\<open>links.new(x, y)\<close> with its two socket lookups evaluated first, left to right.\<close>

definition link_sockets ::
  "(nat \<times> nat) option nt_step \<Rightarrow> (nat \<times> nat) option nt_step \<Rightarrow> unit nt_step" where
  "link_sockets a b = nt_bind a (\<lambda>x. nt_bind b (\<lambda>y. links_new x y))"

text \<open>\<^verbatim>\<open>_set_color_ramp_elements(ramp.color_ramp, flame_ramp)\<close> on node \<open>i\<close>.\<close>

definition set_node_ramp :: "host \<Rightarrow> nat \<Rightarrow> (rat \<times> rat list) list \<Rightarrow> unit nt_step" where
  "set_node_ramp H i flame_ramp t =
     (case set_color_ramp_elements (ramp_color H) (color_ramp (nodes t ! i)) flame_ramp of
        Inl e \<Rightarrow> (Inl e, t)
      | Inr cr \<Rightarrow> (Inr (), update_node i (\<lambda>n. n\<lparr>color_ramp := cr\<rparr>) t))"

text \<open>\<^verbatim>\<open>_build_volume_shader(mat, flame_strength, smoke_density, flame_ramp)\<close> on the node tree of the material.\<close>

definition build_volume_shader ::
  "host \<Rightarrow> rat \<Rightarrow> rat \<Rightarrow> (rat \<times> rat list) list \<Rightarrow> unit nt_step" where
  "build_volume_shader H flame_strength' smoke_density' flame_ramp =
     nt_bind nodes_clear (\<lambda>_.
     nt_bind (nodes_new H ''ShaderNodeOutputMaterial'') (\<lambda>out.
     nt_bind (set_location out (520, 0)) (\<lambda>_.
     nt_bind (nodes_new H ''ShaderNodeVolumePrincipled'') (\<lambda>pv.
     nt_bind (set_location pv (260, 0)) (\<lambda>_.
     nt_bind (nodes_new H ''ShaderNodeAttribute'') (\<lambda>attr_density.
     nt_bind (set_prop attr_density ''attribute_name'' (PStr ''density'')) (\<lambda>_.
     nt_bind (set_location attr_density (-520, -120)) (\<lambda>_.
     nt_bind (nodes_new H ''ShaderNodeAttribute'') (\<lambda>attr_flame.
     nt_bind (set_prop attr_flame ''attribute_name'' (PStr ''flame'')) (\<lambda>_.
     nt_bind (set_location attr_flame (-520, 140)) (\<lambda>_.
     nt_bind (nodes_new H ''ShaderNodeValToRGB'') (\<lambda>ramp.
     nt_bind (set_location ramp (-240, 140)) (\<lambda>_.
     nt_bind (set_node_ramp H ramp flame_ramp) (\<lambda>_.
     nt_bind (nodes_new H ''ShaderNodeMath'') (\<lambda>mult.
     nt_bind (set_prop mult ''operation'' (PStr ''MULTIPLY'')) (\<lambda>_.
     nt_bind (set_input_default mult 1 (PFloat flame_strength')) (\<lambda>_.
     nt_bind (set_location mult (-20, 140)) (\<lambda>_.
     nt_bind (nodes_new H ''ShaderNodeMath'') (\<lambda>mult_d.
     nt_bind (set_prop mult_d ''operation'' (PStr ''MULTIPLY'')) (\<lambda>_.
     nt_bind (set_input_default mult_d 1 (PFloat smoke_density')) (\<lambda>_.
     nt_bind (set_location mult_d (-20, -120)) (\<lambda>_.
     nt_bind (link_sockets (output_at pv 0) (input_at out 1)) (\<lambda>_.
     nt_bind (link_sockets (output_get attr_flame ''Fac'') (input_at ramp 0)) (\<lambda>_.
     nt_bind (link_sockets (output_get ramp ''Color'') (input_get pv ''Emission Color'')) (\<lambda>_.
     nt_bind (link_sockets (output_get attr_flame ''Fac'') (input_at mult 0)) (\<lambda>_.
     nt_bind (link_sockets (output_get mult ''Value'') (input_get pv ''Emission Strength'')) (\<lambda>_.
     nt_bind (link_sockets (output_get attr_density ''Fac'') (input_at mult_d 0)) (\<lambda>_.
     nt_bind (link_sockets (output_get mult_d ''Value'') (input_get pv ''Density'')) (\<lambda>_.
     nt_bind (set_input_if_has H pv ''Anisotropy'' (PFloat 0.2)) (\<lambda>_.
     set_input_if_has H pv ''Color'' (PVec [0.2, 0.2, 0.2, 1.0])))))))))))))))))))))))))))))))"

text \<open>
  \<^verbatim>\<open>_get_or_create_material(name)\<close>: a new material has no nodes enabled; enabling them
  for the first time gives it the host's default tree.
\<close>

definition get_or_create_material :: "host \<Rightarrow> string \<Rightarrow> document \<Rightarrow> nat \<times> document" where
  "get_or_create_material H name d =
     (let (i, ms) =
        (case index_of (\<lambda>m. mat_name m = name) (materials d) of
           Some i \<Rightarrow> (i, materials d)
         | None \<Rightarrow>
             (length (materials d),
              materials d @ [\<lparr>mat_name = name, use_nodes = False,
                                mat_tree = \<lparr>nodes = [], links = []\<rparr>\<rparr>]));
          mat = ms ! i;
          mat' = (if use_nodes mat then mat else mat\<lparr>use_nodes := True, mat_tree := default_tree H\<rparr>)
      in (i, d\<lparr>materials := ms[i := mat']\<rparr>))"

text \<open>
  \<^verbatim>\<open>if domain_obj.data is not None: if len(domain_obj.data.materials) == 0:
  domain_obj.data.materials.append(mat) else: domain_obj.data.materials[0] = mat\<close>
\<close>

definition assign_first_slot :: "nat \<Rightarrow> nat \<Rightarrow> document \<Rightarrow> document" where
  "assign_first_slot di mi d =
     (case o_data (objects d ! di) of
        None \<Rightarrow> d
      | Some me \<Rightarrow>
          d\<lparr>objects := (objects d)
               [di := (objects d ! di)
                  \<lparr>o_data := Some (me\<lparr>me_materials :=
                      (if length (me_materials me) = 0 then me_materials me @ [mi]
                       else (me_materials me)[0 := mi])\<rparr>)\<rparr>]\<rparr>)"

text \<open>
  \<^verbatim>\<open>_ensure_domain_material(domain_obj, settings)\<close>, on the object with index
  \<open>domain_obj\<close>. An exception of the shader build leaves the function; the material then
  keeps the nodes built so far and the object's slot is not reached.
\<close>

definition ensure_domain_material ::
  "host \<Rightarrow> nat option \<Rightarrow> FIREVFX_Settings \<Rightarrow> document \<Rightarrow> pyexc option \<times> document" where
  "ensure_domain_material H domain_obj settings d =
     (case domain_obj of
        None \<Rightarrow> (None, d)
      | Some di \<Rightarrow>
          (let (mi, d1) = get_or_create_material H MATERIAL_NAME d;
               flame_ramp =
                 [(0.0, flame_color_low settings),
                  (0.25, flame_color_mid settings),
                  (1.0, flame_color_high settings)];
               (r, t) = build_volume_shader H (flame_strength settings) (smoke_density settings)
                          flame_ramp (mat_tree (materials d1 ! mi));
               d2 = d1\<lparr>materials := (materials d1)[mi := (materials d1 ! mi)\<lparr>mat_tree := t\<rparr>]\<rparr>
           in case r of
                Inl e \<Rightarrow> (Some e, d2)
              | Inr _ \<Rightarrow> (None, assign_first_slot di mi d2)))"

section \<open>Operators\<close>

text \<open>
  What an operator's \<open>execute\<close> gives back: the status it returns or the exception that
  leaves it, the messages it reported (level and text), and the document as it leaves it.
\<close>

datatype outcome = FINISHED | CANCELLED | RAISED pyexc

type_synonym op_result = "outcome \<times> (string \<times> string) list \<times> document"

definition doc_of :: "op_result \<Rightarrow> document" where
  "doc_of r = snd (snd r)"

text \<open>\<^verbatim>\<open>bpy.data.objects.get(name)\<close>\<close>

definition objects_get :: "document \<Rightarrow> string \<Rightarrow> nat option" where
  "objects_get d name = index_of (\<lambda>ob. o_name ob = name) (objects d)"

definition update_object :: "nat \<Rightarrow> (bobject \<Rightarrow> bobject) \<Rightarrow> document \<Rightarrow> document" where
  "update_object i f d = d\<lparr>objects := (objects d)[i := f (objects d ! i)]\<rparr>"

text \<open>\<^verbatim>\<open>_ensure_collection(name)\<close>\<close>

definition ensure_collection :: "string \<Rightarrow> document \<Rightarrow> nat \<times> document" where
  "ensure_collection name d =
     (case index_of (\<lambda>c. c_name c = name) (collections d) of
        Some col \<Rightarrow> (col, d)
      | None \<Rightarrow>
          (length (collections d),
           d\<lparr>collections := collections d @ [\<lparr>c_name = name, c_objects = []\<rparr>],
             scene_children := scene_children d @ [length (collections d)]\<rparr>))"

text \<open>
  \<^verbatim>\<open>_link_to_collection(obj, col)\<close>: the object leaves every collection it is in (the
  host counts the scene's root collection among \<^verbatim>\<open>users_collection\<close>) and is then linked
  to \<open>col\<close>; the host's \<^verbatim>\<open>link\<close> raises for an object that is in the collection
  already, which the source swallows.
\<close>

definition unlink_everywhere :: "nat \<Rightarrow> document \<Rightarrow> document" where
  "unlink_everywhere ob d =
     d\<lparr>collections := map (\<lambda>c. c\<lparr>c_objects := removeAll ob (c_objects c)\<rparr>) (collections d),
       scene_objects := removeAll ob (scene_objects d)\<rparr>"

definition collection_link :: "nat \<Rightarrow> nat \<Rightarrow> document \<Rightarrow> document" where
  "collection_link ob col d =
     (if ob \<in> set (c_objects (collections d ! col)) then d
      else d\<lparr>collections := (collections d)
               [col := (collections d ! col)\<lparr>c_objects := c_objects (collections d ! col) @ [ob]\<rparr>]\<rparr>)"

definition link_to_collection :: "nat \<Rightarrow> nat \<Rightarrow> document \<Rightarrow> document" where
  "link_to_collection ob col d = collection_link ob col (unlink_everywhere ob d)"

text \<open>
  \<^verbatim>\<open>bpy.ops.mesh.primitive_cube_add\<close> and \<^verbatim>\<open>primitive_cylinder_add\<close>, then
  \<^verbatim>\<open>context.active_object\<close>: the host adds a mesh object at the location, in the scene's
  root collection, selects it alone and makes it active. The name the host gives it is
  overwritten by the next statement of the source.
\<close>

definition primitive_add :: "string \<Rightarrow> rat list \<Rightarrow> document \<Rightarrow> nat \<times> document" where
  "primitive_add prim loc d =
     (length (objects d),
      d\<lparr>objects := map (\<lambda>ob. ob\<lparr>o_selected := False\<rparr>) (objects d) @
           [\<lparr>o_name = prim, o_location = loc, o_scale = [1, 1, 1],
             o_attrs = [''display_type'' \<mapsto> PStr ''TEXTURED''], o_modifiers = [],
             o_data = Some \<lparr>me_primitive = prim, me_applied_scale = [1, 1, 1], me_materials = []\<rparr>,
             o_selected = True\<rparr>],
        scene_objects := scene_objects d @ [length (objects d)],
        active_object := Some (length (objects d)),
        ops_log := ops_log d @ [''mesh.primitive_'' @ prim @ ''_add'']\<rparr>)"

text \<open>
  \<^verbatim>\<open>bpy.ops.object.transform_apply(location=False, rotation=False, scale=True)\<close>: when it
  does not raise, the host multiplies the scale of every selected object into its mesh
  and resets the scale.
\<close>

definition transform_apply :: "host \<Rightarrow> document \<Rightarrow> document" where
  "transform_apply H d =
     (if transform_apply_raises H d
      then d\<lparr>ops_log := ops_log d @ [''object.transform_apply'']\<rparr>
      else d\<lparr>objects :=
               map (\<lambda>ob. if o_selected ob
                          then ob\<lparr>o_scale := [1, 1, 1],
                                  o_data := map_option
                                    (\<lambda>me. me\<lparr>me_applied_scale :=
                                       map (\<lambda>(a, b). a * b) (zip (me_applied_scale me) (o_scale ob))\<rparr>)
                                    (o_data ob)\<rparr>
                          else ob)
                 (objects d),
             ops_log := ops_log d @ [''object.transform_apply'']\<rparr>)"

text \<open>
  \<^verbatim>\<open>try: bpy.context.view_layer.objects.active = ob; ob.select_set(True);
  bpy.ops.object.transform_apply(...) except Exception: pass\<close>
\<close>

definition apply_scale_of :: "host \<Rightarrow> nat \<Rightarrow> document \<Rightarrow> document" where
  "apply_scale_of H ob d =
     transform_apply H
       (update_object ob (\<lambda>x. x\<lparr>o_selected := True\<rparr>) (d\<lparr>active_object := Some ob\<rparr>))"

text \<open>\<^verbatim>\<open>settings.domain_size[k]\<close>: an index out of range raises.\<close>

definition vec_at :: "rat list \<Rightarrow> nat \<Rightarrow> pyexc + rat" where
  "vec_at xs k = (if k < length xs then Inr (xs ! k) else Inl IndexError)"

text \<open>
  \<^verbatim>\<open>(settings.domain_size[0] / 2.0, settings.domain_size[1] / 2.0,
  settings.domain_size[2] / 2.0)\<close>
\<close>

definition half_size :: "rat list \<Rightarrow> pyexc + rat list" where
  "half_size xs =
     (case vec_at xs 0 of
        Inl e \<Rightarrow> Inl e
      | Inr x \<Rightarrow>
          (case vec_at xs 1 of
             Inl e \<Rightarrow> Inl e
           | Inr y \<Rightarrow>
               (case vec_at xs 2 of
                  Inl e \<Rightarrow> Inl e
                | Inr z \<Rightarrow> Inr [x / 2, y / 2, z / 2])))"

text \<open>\<^verbatim>\<open>_apply_domain_settings\<close> and \<^verbatim>\<open>_apply_flow_settings\<close> on an object of the document.\<close>

definition apply_domain_settings_at :: "host \<Rightarrow> nat \<Rightarrow> FIREVFX_Settings \<Rightarrow> document \<Rightarrow> document" where
  "apply_domain_settings_at H ob settings d =
     (case apply_domain_settings H (Some (objects d ! ob)) settings of
        None \<Rightarrow> d
      | Some ob' \<Rightarrow> d\<lparr>objects := (objects d)[ob := ob']\<rparr>)"

definition apply_flow_settings_at :: "host \<Rightarrow> nat \<Rightarrow> FIREVFX_Settings \<Rightarrow> document \<Rightarrow> document" where
  "apply_flow_settings_at H ob settings d =
     (case apply_flow_settings H (Some (objects d ! ob)) settings of
        None \<Rightarrow> d
      | Some ob' \<Rightarrow> d\<lparr>objects := (objects d)[ob := ob']\<rparr>)"

text \<open>\<^verbatim>\<open>_set_if_has(ob, "display_type", value)\<close> on an object of the document.\<close>

definition set_display_type :: "host \<Rightarrow> nat \<Rightarrow> string \<Rightarrow> document \<Rightarrow> document" where
  "set_display_type H ob v d =
     update_object ob
       (\<lambda>x. case set_if_has (accepts H ''Object'') (Some (o_attrs x)) ''display_type'' (PStr v) of
               None \<Rightarrow> x
             | Some a \<Rightarrow> x\<lparr>o_attrs := a\<rparr>) d"

text \<open>
  \<^verbatim>\<open>FIREVFX_OT_create_rig.execute\<close> from "Apply sizes" to its end (lines 595 to 629),
  for the two objects the first half of the function has in \<open>domain\<close> and \<open>emitter\<close>.
\<close>

definition create_rig_from_sizes :: "host \<Rightarrow> nat \<Rightarrow> nat \<Rightarrow> document \<Rightarrow> op_result" where
  "create_rig_from_sizes H domain emitter d =
     (let settings = fire_vfx_settings d in
      case half_size (domain_size settings) of
        Inl e \<Rightarrow> (RAISED e, [], d)
      | Inr sc \<Rightarrow>
          (let d1 = update_object domain (\<lambda>x. x\<lparr>o_scale := sc\<rparr>) d;
               d2 = update_object emitter (\<lambda>x. x\<lparr>o_scale := emitter_scale settings\<rparr>) d1;
               d3 = (if apply_scale_on_update settings
                     then apply_scale_of H emitter (apply_scale_of H domain d2)
                     else d2);
               d4 = apply_domain_settings_at H domain settings d3;
               d5 = apply_flow_settings_at H emitter settings d4
           in case ensure_domain_material H (Some domain) settings d5 of
                (Some e, d6) \<Rightarrow> (RAISED e, [], d6)
              | (None, d6) \<Rightarrow>
                  (let d7 = d6\<lparr>fire_vfx_settings := (fire_vfx_settings d6)
                               \<lparr>domain_object_name := o_name (objects d6 ! domain),
                                emitter_object_name := o_name (objects d6 ! emitter)\<rparr>\<rparr>;
                       d8 = set_display_type H domain ''WIRE'' d7;
                       d9 = set_display_type H emitter ''SOLID'' d8
                   in (FINISHED, [], d9))))"

text \<open>
  The three statements under \<^verbatim>\<open>if domain is None:\<close> and \<^verbatim>\<open>if emitter is None:\<close>: the
  primitive is added, \<^verbatim>\<open>context.active_object\<close> is taken and renamed.
\<close>

definition add_named :: "string \<Rightarrow> rat list \<Rightarrow> string \<Rightarrow> document \<Rightarrow> nat \<times> document" where
  "add_named prim loc name d =
     (let (i, d') = primitive_add prim loc d
      in (i, update_object i (\<lambda>x. x\<lparr>o_name := name\<rparr>) d'))"

text \<open>
  The first half of \<^verbatim>\<open>FIREVFX_OT_create_rig.execute\<close> (lines 570 to 593): the collection,
  the two objects looked up by name or created and renamed, both moved into the
  collection. It gives the two objects and the document.
\<close>

definition create_rig_objects :: "document \<Rightarrow> nat \<times> nat \<times> document" where
  "create_rig_objects d =
     (let (col, d1) = ensure_collection COLLECTION_NAME d;
          domain0 = objects_get d1 DOMAIN_NAME;
          emitter0 = objects_get d1 EMITTER_NAME;
          (domain, d2) =
            (case domain0 of
               Some i \<Rightarrow> (i, d1)
             | None \<Rightarrow> add_named ''cube'' [0.0, 0.0, 1.0] DOMAIN_NAME d1);
          (emitter, d3) =
            (case emitter0 of
               Some i \<Rightarrow> (i, d2)
             | None \<Rightarrow> add_named ''cylinder'' [0.0, 0.0, 0.25] EMITTER_NAME d2);
          d4 = link_to_collection domain col d3;
          d5 = link_to_collection emitter col d4
      in (domain, emitter, d5))"

definition create_rig :: "host \<Rightarrow> document \<Rightarrow> op_result" where
  "create_rig H d =
     (let (domain, emitter, d') = create_rig_objects d
      in create_rig_from_sizes H domain emitter d')"

text \<open>\<^verbatim>\<open>_find_rig(context)\<close>: an empty stored name is not looked up.\<close>

definition find_rig :: "document \<Rightarrow> nat option \<times> nat option" where
  "find_rig d =
     (let settings = fire_vfx_settings d in
      (if domain_object_name settings \<noteq> [] then objects_get d (domain_object_name settings) else None,
       if emitter_object_name settings \<noteq> [] then objects_get d (emitter_object_name settings) else None))"

text \<open>
  \<^verbatim>\<open>FIREVFX_OT_update_rig.execute\<close> after the lookup (lines 646 to 669), for the two
  objects found.
\<close>

definition update_rig_found :: "host \<Rightarrow> nat \<Rightarrow> nat \<Rightarrow> document \<Rightarrow> op_result" where
  "update_rig_found H domain emitter d =
     (let settings = fire_vfx_settings d in
      case half_size (domain_size settings) of
        Inl e \<Rightarrow> (RAISED e, [], d)
      | Inr sc \<Rightarrow>
          (let d1 = update_object domain (\<lambda>x. x\<lparr>o_scale := sc\<rparr>) d;
               d2 = update_object emitter (\<lambda>x. x\<lparr>o_scale := emitter_scale settings\<rparr>) d1;
               d3 = (if apply_scale_on_update settings
                     then apply_scale_of H emitter (apply_scale_of H domain d2)
                     else d2);
               d4 = apply_domain_settings_at H domain settings d3;
               d5 = apply_flow_settings_at H emitter settings d4
           in case ensure_domain_material H (Some domain) settings d5 of
                (Some e, d6) \<Rightarrow> (RAISED e, [], d6)
              | (None, d6) \<Rightarrow> (FINISHED, [], d6)))"

definition update_rig :: "host \<Rightarrow> document \<Rightarrow> op_result" where
  "update_rig H d =
     (case find_rig d of
        (Some domain, Some emitter) \<Rightarrow> update_rig_found H domain emitter d
      | _ \<Rightarrow> (CANCELLED, [(''WARNING'', ''No rig found. Click Create Fire Rig first.'')], d))"

text \<open>
  The selection housekeeping of the bake operators:
  \<^verbatim>\<open>try: bpy.ops.object.select_all(action="DESELECT"); domain.select_set(True);
  context.view_layer.objects.active = domain except Exception: pass\<close>
\<close>

definition make_active :: "host \<Rightarrow> nat \<Rightarrow> document \<Rightarrow> document" where
  "make_active H domain d =
     (if select_all_raises H d
      then d\<lparr>ops_log := ops_log d @ [''object.select_all'']\<rparr>
      else (update_object domain (\<lambda>x. x\<lparr>o_selected := True\<rparr>)
              (d\<lparr>objects := map (\<lambda>ob. ob\<lparr>o_selected := False\<rparr>) (objects d),
                 ops_log := ops_log d @ [''object.select_all'']\<rparr>))
           \<lparr>active_object := Some domain\<rparr>)"

text \<open>
  \<^verbatim>\<open>bpy.ops.fluid.bake_all()\<close> and \<^verbatim>\<open>bpy.ops.fluid.free_all()\<close>: the message of the
  exception if the host raises, and the document after the call.
\<close>

definition fluid_bake_all :: "host \<Rightarrow> document \<Rightarrow> string option \<times> document" where
  "fluid_bake_all H d =
     (case bake_all_raises H d of
        Some msg \<Rightarrow> (Some msg, d\<lparr>ops_log := ops_log d @ [''fluid.bake_all'']\<rparr>)
      | None \<Rightarrow> (None, d\<lparr>ops_log := ops_log d @ [''fluid.bake_all''], baked := True\<rparr>))"

definition fluid_free_all :: "host \<Rightarrow> document \<Rightarrow> string option \<times> document" where
  "fluid_free_all H d =
     (case free_all_raises H d of
        Some msg \<Rightarrow> (Some msg, d\<lparr>ops_log := ops_log d @ [''fluid.free_all'']\<rparr>)
      | None \<Rightarrow> (None, d\<lparr>ops_log := ops_log d @ [''fluid.free_all''], baked := False\<rparr>))"

text \<open>\<^verbatim>\<open>FIREVFX_OT_bake_all.execute\<close>\<close>

definition bake_all :: "host \<Rightarrow> document \<Rightarrow> op_result" where
  "bake_all H d =
     (case fst (find_rig d) of
        None \<Rightarrow> (CANCELLED, [(''WARNING'', ''No domain found. Create the rig first.'')], d)
      | Some domain \<Rightarrow>
          (let d1 = make_active H domain d in
           case fluid_bake_all H d1 of
             (None, d2) \<Rightarrow> (FINISHED, [], d2)
           | (Some _, d2) \<Rightarrow>
               (case fluid_free_all H d2 of
                  (Some e, d3) \<Rightarrow> (CANCELLED, [(''ERROR'', ''Bake failed: '' @ e)], d3)
                | (None, d3) \<Rightarrow>
                    (case fluid_bake_all H d3 of
                       (Some e, d4) \<Rightarrow> (CANCELLED, [(''ERROR'', ''Bake failed: '' @ e)], d4)
                     | (None, d4) \<Rightarrow> (FINISHED, [], d4)))))"

text \<open>\<^verbatim>\<open>FIREVFX_OT_free_all.execute\<close>\<close>

definition free_all :: "host \<Rightarrow> document \<Rightarrow> op_result" where
  "free_all H d =
     (case fst (find_rig d) of
        None \<Rightarrow> (CANCELLED, [(''WARNING'', ''No domain found. Create the rig first.'')], d)
      | Some domain \<Rightarrow>
          (let d1 = make_active H domain d in
           case fluid_free_all H d1 of
             (Some e, d2) \<Rightarrow> (CANCELLED, [(''ERROR'', ''Free failed: '' @ e)], d2)
           | (None, d2) \<Rightarrow> (FINISHED, [], d2)))"

text \<open>How often an operator was invoked.\<close>

definition invocations :: "string \<Rightarrow> document \<Rightarrow> nat" where
  "invocations op d = length (filter (\<lambda>x. x = op) (ops_log d))"

text \<open>
  What the second half of \<open>create_rig\<close> and \<open>update_rig\<close> have no statement for: the
  names of the objects and the membership of the collections.
\<close>

definition rig_frame :: "document \<Rightarrow> string list \<times> collection list \<times> nat list \<times> nat list" where
  "rig_frame d = (map o_name (objects d), collections d, scene_objects d, scene_children d)"

section \<open>A host and documents to run the operators on\<close>

text \<open>
  The nodes of a host of the 3.x series, for the five types the shader builder asks for:
  their input sockets (with a default value where the socket has one) and their output
  sockets; a new color ramp has a black stop at 0 and a white stop at 1.
\<close>

definition value_socket :: "string \<Rightarrow> pyval \<Rightarrow> socket" where
  "value_socket name v = \<lparr>s_name = name, default_value = Some v\<rparr>"

definition shader_socket :: "string \<Rightarrow> socket" where
  "shader_socket name = \<lparr>s_name = name, default_value = None\<rparr>"

definition blender_node :: "string \<Rightarrow> node option" where
  "blender_node ty =
     (if ty = ''ShaderNodeOutputMaterial'' then
        Some \<lparr>bl_idname = ty, n_location = (0, 0), n_props = Map.empty, color_ramp = None,
              n_inputs = [shader_socket ''Surface'', shader_socket ''Volume'',
                          value_socket ''Displacement'' (PVec [0, 0, 0])],
              n_outputs = []\<rparr>
      else if ty = ''ShaderNodeVolumePrincipled'' then
        Some \<lparr>bl_idname = ty, n_location = (0, 0), n_props = Map.empty, color_ramp = None,
              n_inputs = [value_socket ''Color'' (PVec [0.5, 0.5, 0.5, 1.0]),
                          value_socket ''Color Attribute'' (PStr []),
                          value_socket ''Density'' (PFloat 1.0),
                          value_socket ''Density Attribute'' (PStr ''density''),
                          value_socket ''Anisotropy'' (PFloat 0.0),
                          value_socket ''Absorption Color'' (PVec [0, 0, 0, 1]),
                          value_socket ''Emission Strength'' (PFloat 0.0),
                          value_socket ''Emission Color'' (PVec [1, 1, 1, 1]),
                          value_socket ''Blackbody Intensity'' (PFloat 0.0),
                          value_socket ''Blackbody Tint'' (PVec [1, 1, 1, 1]),
                          value_socket ''Temperature'' (PFloat 1000.0),
                          value_socket ''Temperature Attribute'' (PStr ''temperature'')],
              n_outputs = [''Volume'']\<rparr>
      else if ty = ''ShaderNodeAttribute'' then
        Some \<lparr>bl_idname = ty, n_location = (0, 0),
              n_props = [''attribute_name'' \<mapsto> PStr []], color_ramp = None,
              n_inputs = [], n_outputs = [''Color'', ''Vector'', ''Fac'', ''Alpha'']\<rparr>
      else if ty = ''ShaderNodeValToRGB'' then
        Some \<lparr>bl_idname = ty, n_location = (0, 0), n_props = Map.empty,
              color_ramp = Some [\<lparr>position = 0, color = [0, 0, 0, 1]\<rparr>,
                                 \<lparr>position = 1, color = [1, 1, 1, 1]\<rparr>],
              n_inputs = [value_socket ''Fac'' (PFloat 0.5)],
              n_outputs = [''Color'', ''Alpha'']\<rparr>
      else if ty = ''ShaderNodeMath'' then
        Some \<lparr>bl_idname = ty, n_location = (0, 0),
              n_props = [''operation'' \<mapsto> PStr ''ADD''], color_ramp = None,
              n_inputs = [value_socket ''Value'' (PFloat 0.5), value_socket ''Value'' (PFloat 0.5),
                          value_socket ''Value'' (PFloat 0.5)],
              n_outputs = [''Value'']\<rparr>
      else None)"

text \<open>A host that takes every write and whose operators do not raise.\<close>

definition plain_host :: host where
  "plain_host =
     \<lparr>accepts = (\<lambda>struct attr v. True),
      domain_defaults = [''domain_type'' \<mapsto> PStr ''GAS'', ''resolution_max'' \<mapsto> PInt 32,
                         ''use_noise'' \<mapsto> PBool False],
      flow_defaults = [''flow_type'' \<mapsto> PStr ''SMOKE'', ''density'' \<mapsto> PFloat 1.0],
      node_template = blender_node,
      default_tree = \<lparr>nodes = [], links = []\<rparr>,
      ramp_color = (\<lambda>es pos. [0, 0, 0, 1]),
      transform_apply_raises = (\<lambda>d. False),
      select_all_raises = (\<lambda>d. False),
      bake_all_raises = (\<lambda>d. None),
      free_all_raises = (\<lambda>d. None)\<rparr>"

text \<open>A host whose bake raises as long as the cache has not been freed.\<close>

definition stale_cache_host :: host where
  "stale_cache_host =
     plain_host\<lparr>bake_all_raises :=
       (\<lambda>d. if ''fluid.free_all'' \<in> set (ops_log d) then None else Some ''stale cache'')\<rparr>"

text \<open>
  A new document, and one with a rig made by hand: two new mesh objects under the fixed
  names, displayed textured as new objects are, in the collection, their names stored in
  the settings.
\<close>

definition empty_document :: document where
  "empty_document =
     \<lparr>objects = [], collections = [], scene_objects = [], scene_children = [], materials = [],
      active_object = None, fire_vfx_settings = default_settings, ops_log = [], baked = False\<rparr>"

definition rig_document :: document where
  "rig_document =
     \<lparr>objects = [bare_object\<lparr>o_name := DOMAIN_NAME\<rparr>, bare_object\<lparr>o_name := EMITTER_NAME\<rparr>],
      collections = [\<lparr>c_name = COLLECTION_NAME, c_objects = [0, 1]\<rparr>],
      scene_objects = [], scene_children = [0], materials = [],
      active_object = None,
      fire_vfx_settings = default_settings
        \<lparr>domain_object_name := DOMAIN_NAME, emitter_object_name := EMITTER_NAME\<rparr>,
      ops_log = [], baked = False\<rparr>"

text \<open>
  \<^verbatim>\<open>bpy.data.collections.get(name).objects\<close>, read as the list of the members; no
  members when there is no such collection.
\<close>

definition collection_members :: "string \<Rightarrow> document \<Rightarrow> nat list" where
  "collection_members name d =
     (case index_of (\<lambda>c. c_name c = name) (collections d) of
        None \<Rightarrow> []
      | Some col \<Rightarrow> c_objects (collections d ! col))"

text \<open>How many objects of the document carry a name.\<close>

definition objects_named :: "string \<Rightarrow> document \<Rightarrow> nat" where
  "objects_named name d = length (filter (\<lambda>ob. o_name ob = name) (objects d))"


section \<open>Properties of the settings record\<close>

text \<open>A write to one field changes what \<open>getattr_settings\<close> returns for that name only.\<close>

lemma getattr_preset_update:
  "getattr_settings (s\<lparr>preset := x\<rparr>) k = ((getattr_settings s)(''preset'' \<mapsto> PStr x)) k"
  by (cases "k = ''preset''")
     (simp_all add: getattr_settings_def cong del: if_weak_cong split del: if_split)

lemma getattr_domain_object_name_update:
  "getattr_settings (s\<lparr>domain_object_name := x\<rparr>) k = ((getattr_settings s)(''domain_object_name'' \<mapsto> PStr x)) k"
  by (cases "k = ''domain_object_name''")
     (simp_all add: getattr_settings_def cong del: if_weak_cong split del: if_split)

lemma getattr_emitter_object_name_update:
  "getattr_settings (s\<lparr>emitter_object_name := x\<rparr>) k = ((getattr_settings s)(''emitter_object_name'' \<mapsto> PStr x)) k"
  by (cases "k = ''emitter_object_name''")
     (simp_all add: getattr_settings_def cong del: if_weak_cong split del: if_split)

lemma getattr_ui_show_advanced_update:
  "getattr_settings (s\<lparr>ui_show_advanced := x\<rparr>) k = ((getattr_settings s)(''ui_show_advanced'' \<mapsto> PBool x)) k"
  by (cases "k = ''ui_show_advanced''")
     (simp_all add: getattr_settings_def cong del: if_weak_cong split del: if_split)

lemma getattr_apply_scale_on_update_update:
  "getattr_settings (s\<lparr>apply_scale_on_update := x\<rparr>) k = ((getattr_settings s)(''apply_scale_on_update'' \<mapsto> PBool x)) k"
  by (cases "k = ''apply_scale_on_update''")
     (simp_all add: getattr_settings_def cong del: if_weak_cong split del: if_split)

lemma getattr_domain_size_update:
  "getattr_settings (s\<lparr>domain_size := x\<rparr>) k = ((getattr_settings s)(''domain_size'' \<mapsto> PVec x)) k"
  by (cases "k = ''domain_size''")
     (simp_all add: getattr_settings_def cong del: if_weak_cong split del: if_split)

lemma getattr_emitter_scale_update:
  "getattr_settings (s\<lparr>emitter_scale := x\<rparr>) k = ((getattr_settings s)(''emitter_scale'' \<mapsto> PVec x)) k"
  by (cases "k = ''emitter_scale''")
     (simp_all add: getattr_settings_def cong del: if_weak_cong split del: if_split)

lemma getattr_resolution_max_update:
  "getattr_settings (s\<lparr>resolution_max := x\<rparr>) k = ((getattr_settings s)(''resolution_max'' \<mapsto> PInt x)) k"
  by (cases "k = ''resolution_max''")
     (simp_all add: getattr_settings_def cong del: if_weak_cong split del: if_split)

lemma getattr_time_scale_update:
  "getattr_settings (s\<lparr>time_scale := x\<rparr>) k = ((getattr_settings s)(''time_scale'' \<mapsto> PFloat x)) k"
  by (cases "k = ''time_scale''")
     (simp_all add: getattr_settings_def cong del: if_weak_cong split del: if_split)

lemma getattr_vorticity_update:
  "getattr_settings (s\<lparr>vorticity := x\<rparr>) k = ((getattr_settings s)(''vorticity'' \<mapsto> PFloat x)) k"
  by (cases "k = ''vorticity''")
     (simp_all add: getattr_settings_def cong del: if_weak_cong split del: if_split)

lemma getattr_use_adaptive_domain_update:
  "getattr_settings (s\<lparr>use_adaptive_domain := x\<rparr>) k = ((getattr_settings s)(''use_adaptive_domain'' \<mapsto> PBool x)) k"
  by (cases "k = ''use_adaptive_domain''")
     (simp_all add: getattr_settings_def cong del: if_weak_cong split del: if_split)

lemma getattr_adaptive_margin_update:
  "getattr_settings (s\<lparr>adaptive_margin := x\<rparr>) k = ((getattr_settings s)(''adaptive_margin'' \<mapsto> PInt x)) k"
  by (cases "k = ''adaptive_margin''")
     (simp_all add: getattr_settings_def cong del: if_weak_cong split del: if_split)

lemma getattr_adaptive_additional_res_update:
  "getattr_settings (s\<lparr>adaptive_additional_res := x\<rparr>) k = ((getattr_settings s)(''adaptive_additional_res'' \<mapsto> PInt x)) k"
  by (cases "k = ''adaptive_additional_res''")
     (simp_all add: getattr_settings_def cong del: if_weak_cong split del: if_split)

lemma getattr_use_noise_update:
  "getattr_settings (s\<lparr>use_noise := x\<rparr>) k = ((getattr_settings s)(''use_noise'' \<mapsto> PBool x)) k"
  by (cases "k = ''use_noise''")
     (simp_all add: getattr_settings_def cong del: if_weak_cong split del: if_split)

lemma getattr_noise_strength_update:
  "getattr_settings (s\<lparr>noise_strength := x\<rparr>) k = ((getattr_settings s)(''noise_strength'' \<mapsto> PFloat x)) k"
  by (cases "k = ''noise_strength''")
     (simp_all add: getattr_settings_def cong del: if_weak_cong split del: if_split)

lemma getattr_noise_scale_update:
  "getattr_settings (s\<lparr>noise_scale := x\<rparr>) k = ((getattr_settings s)(''noise_scale'' \<mapsto> PFloat x)) k"
  by (cases "k = ''noise_scale''")
     (simp_all add: getattr_settings_def cong del: if_weak_cong split del: if_split)

lemma getattr_use_dissolve_smoke_update:
  "getattr_settings (s\<lparr>use_dissolve_smoke := x\<rparr>) k = ((getattr_settings s)(''use_dissolve_smoke'' \<mapsto> PBool x)) k"
  by (cases "k = ''use_dissolve_smoke''")
     (simp_all add: getattr_settings_def cong del: if_weak_cong split del: if_split)

lemma getattr_dissolve_speed_update:
  "getattr_settings (s\<lparr>dissolve_speed := x\<rparr>) k = ((getattr_settings s)(''dissolve_speed'' \<mapsto> PInt x)) k"
  by (cases "k = ''dissolve_speed''")
     (simp_all add: getattr_settings_def cong del: if_weak_cong split del: if_split)

lemma getattr_burning_rate_update:
  "getattr_settings (s\<lparr>burning_rate := x\<rparr>) k = ((getattr_settings s)(''burning_rate'' \<mapsto> PFloat x)) k"
  by (cases "k = ''burning_rate''")
     (simp_all add: getattr_settings_def cong del: if_weak_cong split del: if_split)

lemma getattr_flame_smoke_update:
  "getattr_settings (s\<lparr>flame_smoke := x\<rparr>) k = ((getattr_settings s)(''flame_smoke'' \<mapsto> PFloat x)) k"
  by (cases "k = ''flame_smoke''")
     (simp_all add: getattr_settings_def cong del: if_weak_cong split del: if_split)

lemma getattr_flow_density_update:
  "getattr_settings (s\<lparr>flow_density := x\<rparr>) k = ((getattr_settings s)(''flow_density'' \<mapsto> PFloat x)) k"
  by (cases "k = ''flow_density''")
     (simp_all add: getattr_settings_def cong del: if_weak_cong split del: if_split)

lemma getattr_flow_temperature_update:
  "getattr_settings (s\<lparr>flow_temperature := x\<rparr>) k = ((getattr_settings s)(''flow_temperature'' \<mapsto> PFloat x)) k"
  by (cases "k = ''flow_temperature''")
     (simp_all add: getattr_settings_def cong del: if_weak_cong split del: if_split)

lemma getattr_flow_fuel_update:
  "getattr_settings (s\<lparr>flow_fuel := x\<rparr>) k = ((getattr_settings s)(''flow_fuel'' \<mapsto> PFloat x)) k"
  by (cases "k = ''flow_fuel''")
     (simp_all add: getattr_settings_def cong del: if_weak_cong split del: if_split)

lemma getattr_use_initial_velocity_update:
  "getattr_settings (s\<lparr>use_initial_velocity := x\<rparr>) k = ((getattr_settings s)(''use_initial_velocity'' \<mapsto> PBool x)) k"
  by (cases "k = ''use_initial_velocity''")
     (simp_all add: getattr_settings_def cong del: if_weak_cong split del: if_split)

lemma getattr_velocity_factor_update:
  "getattr_settings (s\<lparr>velocity_factor := x\<rparr>) k = ((getattr_settings s)(''velocity_factor'' \<mapsto> PFloat x)) k"
  by (cases "k = ''velocity_factor''")
     (simp_all add: getattr_settings_def cong del: if_weak_cong split del: if_split)

lemma getattr_flame_strength_update:
  "getattr_settings (s\<lparr>flame_strength := x\<rparr>) k = ((getattr_settings s)(''flame_strength'' \<mapsto> PFloat x)) k"
  by (cases "k = ''flame_strength''")
     (simp_all add: getattr_settings_def cong del: if_weak_cong split del: if_split)

lemma getattr_smoke_density_update:
  "getattr_settings (s\<lparr>smoke_density := x\<rparr>) k = ((getattr_settings s)(''smoke_density'' \<mapsto> PFloat x)) k"
  by (cases "k = ''smoke_density''")
     (simp_all add: getattr_settings_def cong del: if_weak_cong split del: if_split)

lemma getattr_flame_color_low_update:
  "getattr_settings (s\<lparr>flame_color_low := x\<rparr>) k = ((getattr_settings s)(''flame_color_low'' \<mapsto> PVec x)) k"
  by (cases "k = ''flame_color_low''")
     (simp_all add: getattr_settings_def cong del: if_weak_cong split del: if_split)

lemma getattr_flame_color_mid_update:
  "getattr_settings (s\<lparr>flame_color_mid := x\<rparr>) k = ((getattr_settings s)(''flame_color_mid'' \<mapsto> PVec x)) k"
  by (cases "k = ''flame_color_mid''")
     (simp_all add: getattr_settings_def cong del: if_weak_cong split del: if_split)

lemma getattr_flame_color_high_update:
  "getattr_settings (s\<lparr>flame_color_high := x\<rparr>) k = ((getattr_settings s)(''flame_color_high'' \<mapsto> PVec x)) k"
  by (cases "k = ''flame_color_high''")
     (simp_all add: getattr_settings_def cong del: if_weak_cong split del: if_split)

lemma getattr_cache_directory_update:
  "getattr_settings (s\<lparr>cache_directory := x\<rparr>) k = ((getattr_settings s)(''cache_directory'' \<mapsto> PStr x)) k"
  by (cases "k = ''cache_directory''")
     (simp_all add: getattr_settings_def cong del: if_weak_cong split del: if_split)

lemmas getattr_update =
  getattr_preset_update
  getattr_domain_object_name_update
  getattr_emitter_object_name_update
  getattr_ui_show_advanced_update
  getattr_apply_scale_on_update_update
  getattr_domain_size_update
  getattr_emitter_scale_update
  getattr_resolution_max_update
  getattr_time_scale_update
  getattr_vorticity_update
  getattr_use_adaptive_domain_update
  getattr_adaptive_margin_update
  getattr_adaptive_additional_res_update
  getattr_use_noise_update
  getattr_noise_strength_update
  getattr_noise_scale_update
  getattr_use_dissolve_smoke_update
  getattr_dissolve_speed_update
  getattr_burning_rate_update
  getattr_flame_smoke_update
  getattr_flow_density_update
  getattr_flow_temperature_update
  getattr_flow_fuel_update
  getattr_use_initial_velocity_update
  getattr_velocity_factor_update
  getattr_flame_strength_update
  getattr_smoke_density_update
  getattr_flame_color_low_update
  getattr_flame_color_mid_update
  getattr_flame_color_high_update
  getattr_cache_directory_update

lemma BoolProperty_Some: "BoolProperty v = Some x \<Longrightarrow> v = PBool x"
  by (simp add: BoolProperty_def split: pyval.splits)

lemma StringProperty_Some: "StringProperty v = Some x \<Longrightarrow> v = PStr x"
  by (simp add: StringProperty_def split: pyval.splits)

lemma EnumProperty_Some: "EnumProperty items v = Some x \<Longrightarrow> v = PStr x"
  by (simp add: EnumProperty_def split: pyval.splits if_splits)

lemma IntProperty_Some: "IntProperty lo hi v = Some x \<Longrightarrow> v = PInt x"
  by (simp add: IntProperty_def split: pyval.splits if_splits)

lemma FloatProperty_Some: "FloatProperty lo hi v = Some x \<Longrightarrow> v = PFloat x"
  by (simp add: FloatProperty_def split: pyval.splits if_splits)

lemma FloatVectorProperty_Some: "FloatVectorProperty n lo hi v = Some x \<Longrightarrow> v = PVec x"
  by (simp add: FloatVectorProperty_def split: pyval.splits if_splits)

lemmas Property_Some = BoolProperty_Some StringProperty_Some EnumProperty_Some
  IntProperty_Some FloatProperty_Some FloatVectorProperty_Some

lemmas prop_defs = BoolProperty_def StringProperty_def EnumProperty_def IntProperty_def
  FloatProperty_def FloatVectorProperty_def in_range_def

lemma setattr_Some:
  assumes "setattr_settings k v s = Some s'"
  shows "getattr_settings s' = (getattr_settings s)(k \<mapsto> v)"
proof (rule ext)
  fix k'
  from assms show "getattr_settings s' k' = ((getattr_settings s)(k \<mapsto> v)) k'"
    unfolding setattr_settings_def
    by (auto simp: getattr_update dest!: Property_Some split: if_splits)
qed

text \<open>Whether a write raises depends on the name and the value, not on the record.\<close>

lemma setattr_indep:
  "(setattr_settings k v s = None) = (setattr_settings k v t = None)"
  unfolding setattr_settings_def by simp

section \<open>Properties of preset application\<close>

lemma apply_items_get:
  assumes "\<forall>(k, v) \<in> set kvs. hasattr_settings k \<and> setattr_settings k v s0 \<noteq> None"
  shows "getattr_settings (apply_items kvs s) = getattr_settings s ++ map_of (rev kvs)"
  using assms
proof (induction kvs arbitrary: s)
  case Nil
  then show ?case by simp
next
  case (Cons kv kvs)
  obtain k v where kv: "kv = (k, v)" by (cases kv)
  from Cons.prems kv have h: "hasattr_settings k" and n: "setattr_settings k v s0 \<noteq> None"
    by auto
  from n setattr_indep [of k v s s0] obtain s' where s': "setattr_settings k v s = Some s'"
    by auto
  have rest: "\<forall>(k, v) \<in> set kvs. hasattr_settings k \<and> setattr_settings k v s0 \<noteq> None"
    using Cons.prems by simp
  have "getattr_settings (apply_items (kv # kvs) s) = getattr_settings (apply_items kvs s')"
    using kv h s' by simp
  also have "\<dots> = getattr_settings s' ++ map_of (rev kvs)"
    using Cons.IH [OF rest] .
  also have "\<dots> = getattr_settings s ++ map_of (rev (kv # kvs))"
    using setattr_Some [OF s'] kv by (simp add: map_add_def fun_eq_iff split: option.splits)
  finally show ?case .
qed

lemma map_of_rev_distinct: "distinct (map fst xs) \<Longrightarrow> map_of (rev xs) = map_of xs"
  by (subst map_of_inject_set) (simp_all add: rev_map [symmetric])

lemma apply_items_dict:
  assumes "\<forall>(k, v) \<in> set kvs. hasattr_settings k \<and> setattr_settings k v s0 \<noteq> None"
    and "distinct (map fst kvs)"
  shows "getattr_settings (apply_items kvs s) = getattr_settings s ++ map_of kvs"
  using apply_items_get [OF assms(1)] map_of_rev_distinct [OF assms(2)] by simp

text \<open>
  Every entry of every table names a declared field and holds a value that the field's
  declaration accepts, and no table names a field twice.
\<close>

lemma BASE_PRESET_accepted:
  "\<forall>(k, v) \<in> set BASE_PRESET. hasattr_settings k \<and> setattr_settings k v s0 \<noteq> None"
  by (simp add: BASE_PRESET_def hasattr_settings_def settings_fields_def setattr_settings_def prop_defs
      del: not_None_eq)

lemma BASE_PRESET_distinct: "distinct (map fst BASE_PRESET)"
  by (simp add: BASE_PRESET_def)

lemma apply_BASE_PRESET:
  "getattr_settings (apply_items BASE_PRESET s) = getattr_settings s ++ map_of BASE_PRESET"
  by (rule apply_items_dict [OF BASE_PRESET_accepted BASE_PRESET_distinct])

lemma CANDLE_accepted:
  "\<forall>(k, v) \<in> set CANDLE. hasattr_settings k \<and> setattr_settings k v s0 \<noteq> None"
  by (simp add: CANDLE_def hasattr_settings_def settings_fields_def setattr_settings_def prop_defs
      del: not_None_eq)

lemma CANDLE_distinct: "distinct (map fst CANDLE)"
  by (simp add: CANDLE_def)

lemma apply_CANDLE:
  "getattr_settings (apply_items CANDLE s) = getattr_settings s ++ map_of CANDLE"
  by (rule apply_items_dict [OF CANDLE_accepted CANDLE_distinct])

lemma TORCH_accepted:
  "\<forall>(k, v) \<in> set TORCH. hasattr_settings k \<and> setattr_settings k v s0 \<noteq> None"
  by (simp add: TORCH_def hasattr_settings_def settings_fields_def setattr_settings_def prop_defs
      del: not_None_eq)

lemma TORCH_distinct: "distinct (map fst TORCH)"
  by (simp add: TORCH_def)

lemma apply_TORCH:
  "getattr_settings (apply_items TORCH s) = getattr_settings s ++ map_of TORCH"
  by (rule apply_items_dict [OF TORCH_accepted TORCH_distinct])

lemma CAMPFIRE_accepted:
  "\<forall>(k, v) \<in> set CAMPFIRE. hasattr_settings k \<and> setattr_settings k v s0 \<noteq> None"
  by (simp add: CAMPFIRE_def hasattr_settings_def settings_fields_def setattr_settings_def prop_defs
      del: not_None_eq)

lemma CAMPFIRE_distinct: "distinct (map fst CAMPFIRE)"
  by (simp add: CAMPFIRE_def)

lemma apply_CAMPFIRE:
  "getattr_settings (apply_items CAMPFIRE s) = getattr_settings s ++ map_of CAMPFIRE"
  by (rule apply_items_dict [OF CAMPFIRE_accepted CAMPFIRE_distinct])

lemma BONFIRE_accepted:
  "\<forall>(k, v) \<in> set BONFIRE. hasattr_settings k \<and> setattr_settings k v s0 \<noteq> None"
  by (simp add: BONFIRE_def hasattr_settings_def settings_fields_def setattr_settings_def prop_defs
      del: not_None_eq)

lemma BONFIRE_distinct: "distinct (map fst BONFIRE)"
  by (simp add: BONFIRE_def)

lemma apply_BONFIRE:
  "getattr_settings (apply_items BONFIRE s) = getattr_settings s ++ map_of BONFIRE"
  by (rule apply_items_dict [OF BONFIRE_accepted BONFIRE_distinct])

lemma EXPLOSION_accepted:
  "\<forall>(k, v) \<in> set EXPLOSION. hasattr_settings k \<and> setattr_settings k v s0 \<noteq> None"
  by (simp add: EXPLOSION_def hasattr_settings_def settings_fields_def setattr_settings_def prop_defs
      del: not_None_eq)

lemma EXPLOSION_distinct: "distinct (map fst EXPLOSION)"
  by (simp add: EXPLOSION_def)

lemma apply_EXPLOSION:
  "getattr_settings (apply_items EXPLOSION s) = getattr_settings s ++ map_of EXPLOSION"
  by (rule apply_items_dict [OF EXPLOSION_accepted EXPLOSION_distinct])

lemma overrides_get_known:
  "overrides_get ''CANDLE'' = CANDLE" "overrides_get ''TORCH'' = TORCH"
  "overrides_get ''CAMPFIRE'' = CAMPFIRE" "overrides_get ''BONFIRE'' = BONFIRE"
  "overrides_get ''EXPLOSION'' = EXPLOSION"
  by (simp_all add: overrides_get_def PRESET_OVERRIDES_def)

lemma overrides_get_unknown: "p \<notin> set preset_items \<Longrightarrow> overrides_get p = []"
  by (simp add: overrides_get_def PRESET_OVERRIDES_def preset_items_def)

lemma apply_preset_get:
  "getattr_settings (apply_preset_to_settings s p) =
     getattr_settings s ++ map_of BASE_PRESET ++ map_of (overrides_get p)"
proof (cases "p \<in> set preset_items")
  case True
  then have "p = ''CANDLE'' \<or> p = ''TORCH'' \<or> p = ''CAMPFIRE'' \<or> p = ''BONFIRE'' \<or>
      p = ''EXPLOSION''"
    by (simp add: preset_items_def)
  then show ?thesis
    by (elim disjE)
      (simp_all only: apply_preset_to_settings_def overrides_get_known apply_BASE_PRESET
         apply_CANDLE apply_TORCH apply_CAMPFIRE apply_BONFIRE apply_EXPLOSION)
next
  case False
  then show ?thesis
    by (simp add: apply_preset_to_settings_def overrides_get_unknown apply_BASE_PRESET)
qed

text \<open>
  C1: for each of the five preset identifiers, after \<open>_apply_preset_to_settings\<close> every
  field reads as the base table overlaid with that preset's delta says, delta over base, and
  a field that neither table names reads as it did before the call.
\<close>

theorem apply_preset_base_then_delta:
  "getattr_settings (apply_preset_to_settings s ''CANDLE'') =
     getattr_settings s ++ map_of BASE_PRESET ++ map_of CANDLE \<and>
   getattr_settings (apply_preset_to_settings s ''TORCH'') =
     getattr_settings s ++ map_of BASE_PRESET ++ map_of TORCH \<and>
   getattr_settings (apply_preset_to_settings s ''CAMPFIRE'') =
     getattr_settings s ++ map_of BASE_PRESET ++ map_of CAMPFIRE \<and>
   getattr_settings (apply_preset_to_settings s ''BONFIRE'') =
     getattr_settings s ++ map_of BASE_PRESET ++ map_of BONFIRE \<and>
   getattr_settings (apply_preset_to_settings s ''EXPLOSION'') =
     getattr_settings s ++ map_of BASE_PRESET ++ map_of EXPLOSION"
  by (simp only: apply_preset_get overrides_get_known simp_thms)

lemma getattr_read:
  "getattr_settings s ''resolution_max'' = Some (PInt (resolution_max s))"
  "getattr_settings s ''vorticity'' = Some (PFloat (vorticity s))"
  "getattr_settings s ''flame_strength'' = Some (PFloat (flame_strength s))"
  "getattr_settings s ''smoke_density'' = Some (PFloat (smoke_density s))"
  "getattr_settings s ''use_dissolve_smoke'' = Some (PBool (use_dissolve_smoke s))"
  by (simp_all add: getattr_settings_def)

lemma apply_preset_read:
  "getattr_settings (apply_preset_to_settings s p) k = Some v \<Longrightarrow>
   (getattr_settings s ++ map_of BASE_PRESET ++ map_of (overrides_get p)) k = Some v"
  by (simp only: apply_preset_get)

text \<open>
  C2: the values the spec quotes for \<open>CANDLE\<close> and \<open>EXPLOSION\<close>, whatever the record
  held before.
\<close>

theorem candle_and_explosion_examples:
  "resolution_max (apply_preset_to_settings s ''CANDLE'') = 80 \<and>
   vorticity (apply_preset_to_settings s ''CANDLE'') = 0.25 \<and>
   flame_strength (apply_preset_to_settings s ''CANDLE'') = 18.0 \<and>
   use_dissolve_smoke (apply_preset_to_settings s ''CANDLE'') = True \<and>
   resolution_max (apply_preset_to_settings s ''EXPLOSION'') = 176 \<and>
   flame_strength (apply_preset_to_settings s ''EXPLOSION'') = 120.0 \<and>
   smoke_density (apply_preset_to_settings s ''EXPLOSION'') = 6.0"
proof -
  have c1: "resolution_max (apply_preset_to_settings s ''CANDLE'') = 80"
    using apply_preset_read [OF getattr_read(1), of s "''CANDLE''"]
    by (simp add: overrides_get_known CANDLE_def)
  have c2: "vorticity (apply_preset_to_settings s ''CANDLE'') = 0.25"
    using apply_preset_read [OF getattr_read(2), of s "''CANDLE''"]
    by (simp add: overrides_get_known CANDLE_def)
  have c3: "flame_strength (apply_preset_to_settings s ''CANDLE'') = 18.0"
    using apply_preset_read [OF getattr_read(3), of s "''CANDLE''"]
    by (simp add: overrides_get_known CANDLE_def)
  have c4: "use_dissolve_smoke (apply_preset_to_settings s ''CANDLE'') = True"
    using apply_preset_read [OF getattr_read(5), of s "''CANDLE''"]
    by (simp add: overrides_get_known CANDLE_def)
  have e1: "resolution_max (apply_preset_to_settings s ''EXPLOSION'') = 176"
    using apply_preset_read [OF getattr_read(1), of s "''EXPLOSION''"]
    by (simp add: overrides_get_known EXPLOSION_def)
  have e2: "flame_strength (apply_preset_to_settings s ''EXPLOSION'') = 120.0"
    using apply_preset_read [OF getattr_read(3), of s "''EXPLOSION''"]
    by (simp add: overrides_get_known EXPLOSION_def)
  have e3: "smoke_density (apply_preset_to_settings s ''EXPLOSION'') = 6.0"
    using apply_preset_read [OF getattr_read(4), of s "''EXPLOSION''"]
    by (simp add: overrides_get_known EXPLOSION_def)
  from c1 c2 c3 c4 e1 e2 e3 show ?thesis by simp
qed

text \<open>
  C10: an identifier outside the five fixed names finds no delta
  (\<^verbatim>\<open>PRESET_OVERRIDES.get(preset_id, {})\<close> is the empty dict), so the call writes the
  base table alone; the model has no error result because the source catches every
  exception of a write.
\<close>

theorem unknown_preset_is_base_only:
  "p \<notin> set preset_items \<Longrightarrow>
   overrides_get p = [] \<and>
   getattr_settings (apply_preset_to_settings s p) = getattr_settings s ++ map_of BASE_PRESET"
  by (simp add: apply_preset_get overrides_get_unknown)

theorem unknown_preset_is_base_only_witness:
  "''LAVA'' \<notin> set preset_items \<and>
   overrides_get ''LAVA'' = [] \<and>
   getattr_settings (apply_preset_to_settings default_settings ''LAVA'') =
     getattr_settings default_settings ++ map_of BASE_PRESET"
proof -
  have h: "''LAVA'' \<notin> set preset_items" by (simp add: preset_items_def)
  from h unknown_preset_is_base_only [OF h, of default_settings] show ?thesis by simp
qed

section \<open>Properties of the color ramp reconciliation\<close>

lemma length_elements_new:
  "elements_new hc pos es = Inr es' \<Longrightarrow> length es' = Suc (length es)"
  by (auto simp: elements_new_def split: if_splits)

lemma grow_elements_length:
  "length desired \<le> 32 \<Longrightarrow>
   \<exists>es'. grow_elements hc desired es = Inr es' \<and> length es' = max (length es) (length desired)"
proof (induction hc desired es rule: grow_elements.induct)
  case (1 hc desired es)
  show ?case
  proof (cases "length es < length desired")
    case True
    with "1.prems" have lt: "length es < 32" by simp
    then obtain es1 where new: "elements_new hc (fst (desired ! length es)) es = Inr es1"
      by (auto simp: elements_new_def)
    from "1.IH" [OF True new "1.prems"] obtain es' where
      g: "grow_elements hc desired es1 = Inr es'" and
      l: "length es' = max (length es1) (length desired)" by blast
    from length_elements_new [OF new] True l have "length es' = max (length es) (length desired)"
      by simp
    moreover have "grow_elements hc desired es = Inr es'"
      using True new g by (subst grow_elements.simps) simp
    ultimately show ?thesis by blast
  next
    case False
    then show ?thesis by (subst grow_elements.simps) simp
  qed
qed

lemma shrink_elements_length:
  "1 \<le> n \<Longrightarrow> length (shrink_elements n es) = min n (length es)"
proof (induction n es rule: shrink_elements.induct)
  case (1 n es)
  show ?case
  proof (cases "n < length es")
    case True
    with "1.prems" have r: "elements_remove_last es = Inr (butlast es)"
      by (auto simp: elements_remove_last_def)
    from "1.IH" [OF True r "1.prems"] True show ?thesis
      by (subst shrink_elements.simps) (simp add: r)
  next
    case False
    then show ?thesis by (subst shrink_elements.simps) simp
  qed
qed

lemma apply_values_three:
  assumes "length es = 3"
    and "0 \<le> p0" "p0 \<le> 1" "0 \<le> p1" "p1 \<le> 1" "0 \<le> p2" "p2 \<le> 1"
    and "length c0 = 4" "length c1 = 4" "length c2 = 4"
  shows "apply_values 0 [(p0, c0), (p1, c1), (p2, c2)] es =
     [\<lparr>position = p0, color = c0\<rparr>, \<lparr>position = p1, color = c1\<rparr>, \<lparr>position = p2, color = c2\<rparr>]"
proof -
  from assms(1) obtain a b c where es: "es = [a, b, c]"
    by (cases es; cases "tl es"; cases "tl (tl es)") auto
  show ?thesis using assms(2-) by (simp add: es write_element_def)
qed

lemma set_color_ramp_elements_from:
  assumes "(if length es = 0 then elements_new hc 0 es else Inr es) = Inr cr1"
    and "grow_elements hc desired cr1 = Inr cr2" and "desired \<noteq> []"
  shows "set_color_ramp_elements hc (Some es) desired =
     Inr (Some (apply_values 0 desired (shrink_elements (length desired) cr2)))"
  unfolding set_color_ramp_elements_def using assms(3) by (simp only: assms(1,2) option.case sum.case if_False)

text \<open>
  C7: whatever stops the ramp holds before (none, one, two, five, any number), the
  reconciliation with three desired stops returns normally and leaves exactly three stops,
  which carry the desired positions and colours in index order. The desired positions lie
  in the host's range and the colours have four components, as the settings' colour
  properties and the constants 0.0, 0.25, 1.0 of \<^verbatim>\<open>_ensure_domain_material\<close> do.
\<close>

theorem ramp_reconciled_to_three_stops:
  assumes "0 \<le> p0" "p0 \<le> 1" "0 \<le> p1" "p1 \<le> 1" "0 \<le> p2" "p2 \<le> 1"
    and "length c0 = 4" "length c1 = 4" "length c2 = 4"
  shows "set_color_ramp_elements hc (Some es) [(p0, c0), (p1, c1), (p2, c2)] =
     Inr (Some [\<lparr>position = p0, color = c0\<rparr>, \<lparr>position = p1, color = c1\<rparr>,
                \<lparr>position = p2, color = c2\<rparr>])"
proof -
  let ?d = "[(p0, c0), (p1, c1), (p2, c2)]"
  have "\<exists>cr1. (if length es = 0 then elements_new hc 0 es else Inr es) = Inr cr1"
    by (cases "es = []") (simp_all add: elements_new_def)
  then obtain cr1 where cr1: "(if length es = 0 then elements_new hc 0 es else Inr es) = Inr cr1"
    by blast
  obtain cr2 where g: "grow_elements hc ?d cr1 = Inr cr2"
    and l2: "length cr2 = max (length cr1) (length ?d)"
    using grow_elements_length [of ?d hc cr1] by auto
  have "length (shrink_elements (length ?d) cr2) = 3"
    using shrink_elements_length [of "length ?d" cr2] l2 by simp
  from apply_values_three [OF this assms]
  have "apply_values 0 ?d (shrink_elements (length ?d) cr2) =
     [\<lparr>position = p0, color = c0\<rparr>, \<lparr>position = p1, color = c1\<rparr>, \<lparr>position = p2, color = c2\<rparr>]" .
  with set_color_ramp_elements_from [OF cr1 g] show ?thesis by simp
qed

theorem ramp_reconciled_to_three_stops_witness:
  "(0::rat) \<le> 0 \<and> (0::rat) \<le> 1 \<and> (0::rat) \<le> 0.25 \<and> (0.25::rat) \<le> 1 \<and>
   length [0.07, 0.01, 0.0, 1.0 :: rat] = 4 \<and>
   set_color_ramp_elements (\<lambda>es pos. [0, 0, 0, 1]) (Some [])
     [(0.0, [0.07, 0.01, 0.0, 1.0]), (0.25, [1.0, 0.42, 0.08, 1.0]), (1.0, [1.0, 0.95, 0.85, 1.0])] =
   Inr (Some [\<lparr>position = 0.0, color = [0.07, 0.01, 0.0, 1.0]\<rparr>,
              \<lparr>position = 0.25, color = [1.0, 0.42, 0.08, 1.0]\<rparr>,
              \<lparr>position = 1.0, color = [1.0, 0.95, 0.85, 1.0]\<rparr>])"
  using ramp_reconciled_to_three_stops
    [of "0.0" "0.25" "1.0" "[0.07, 0.01, 0.0, 1.0]" "[1.0, 0.42, 0.08, 1.0]"
        "[1.0, 0.95, 0.85, 1.0]" "\<lambda>es pos. [0, 0, 0, 1]" "[]"]
  by simp


section \<open>Properties of the simulation configurator\<close>

lemma index_of_None: "index_of P xs = None \<longleftrightarrow> filter P xs = []"
  by (induction xs) auto

lemma index_of_Some: "index_of P xs = Some i \<Longrightarrow> i < length xs \<and> P (xs ! i)"
proof (induction xs arbitrary: i)
  case Nil
  then show ?case by simp
next
  case (Cons x xs)
  then show ?case by (cases "P x") (auto simp: nth_Cons')
qed

lemma index_of_Some_filter: "index_of P xs = Some i \<Longrightarrow> filter P xs \<noteq> []"
  using index_of_None [of P xs] by simp

text \<open>The index found is the number of elements before the first one with the property.\<close>

lemma index_of_takeWhile:
  "filter P xs \<noteq> [] \<Longrightarrow> index_of P xs = Some (length (takeWhile (\<lambda>x. \<not> P x) xs))"
  by (induction xs) auto

lemma map_update_same:
  assumes "f y = f (xs ! i)"
  shows "map f (xs[i := y]) = map f xs"
proof (cases "i < length xs")
  case True
  with assms show ?thesis by (simp add: map_update list_update_same_conv)
next
  case False
  then have "length xs \<le> i" by simp
  then show ?thesis by (simp add: list_update_beyond)
qed

lemma fluid_count_types:
  "fluid_count ob = length (filter (\<lambda>t. t = ''FLUID'') (map m_type (o_modifiers ob)))"
  by (simp add: fluid_count_def filter_map o_def)

lemma m_type_set_fluid_type [simp]: "m_type (set_fluid_type H t m) = m_type m"
  by (simp add: set_fluid_type_def Let_def)

text \<open>What \<open>_ensure_fluid_modifier\<close> returns, by the three cases.\<close>

lemma ensure_fluid_modifier_cases:
  "ensure_fluid_modifier (Some ob) =
     (if 0 < fluid_count ob
      then Some (length (takeWhile (\<lambda>m. m_type m \<noteq> ''FLUID'') (o_modifiers ob)), ob)
      else if o_data ob = None then None
      else Some (length (o_modifiers ob), ob\<lparr>o_modifiers := o_modifiers ob @ [fluid_NONE]\<rparr>))"
proof (cases "filter (\<lambda>m. m_type m = ''FLUID'') (o_modifiers ob) = []")
  case True
  then have "index_of (\<lambda>m. m_type m = ''FLUID'') (o_modifiers ob) = None"
    by (simp only: index_of_None)
  with True show ?thesis
    by (simp add: ensure_fluid_modifier_def modifiers_new_fluid_def fluid_count_def)
next
  case False
  from index_of_takeWhile [OF False] False show ?thesis
    by (simp add: ensure_fluid_modifier_def fluid_count_def)
qed

text \<open>The two configurators change no modifier's type and add none of their own.\<close>

lemma apply_domain_settings_types:
  "apply_domain_settings H (Some ob) s = Some ob' \<Longrightarrow>
   map m_type (o_modifiers ob') =
     map m_type (o_modifiers (case ensure_fluid_modifier (Some ob) of
                                None \<Rightarrow> ob | Some (i, ob1) \<Rightarrow> ob1))"
  by (auto simp: apply_domain_settings_def Let_def domain_type_display_def map_update_same
      split: option.splits if_splits)

lemma apply_flow_settings_types:
  "apply_flow_settings H (Some ob) s = Some ob' \<Longrightarrow>
   map m_type (o_modifiers ob') =
     map m_type (o_modifiers (case ensure_fluid_modifier (Some ob) of
                                None \<Rightarrow> ob | Some (i, ob1) \<Rightarrow> ob1))"
  by (auto simp: apply_flow_settings_def Let_def map_update_same split: option.splits)

lemma apply_domain_settings_Some:
  "\<exists>ob'. apply_domain_settings H (Some ob) s = Some ob' \<and> o_name ob' = o_name ob"
  by (auto simp: apply_domain_settings_def ensure_fluid_modifier_def modifiers_new_fluid_def
      domain_type_display_def Let_def split: option.splits)

lemma apply_flow_settings_Some:
  "\<exists>ob'. apply_flow_settings H (Some ob) s = Some ob' \<and> o_name ob' = o_name ob"
  by (auto simp: apply_flow_settings_def ensure_fluid_modifier_def modifiers_new_fluid_def
      Let_def split: option.splits)

lemma fluid_count_after:
  "fluid_count (case ensure_fluid_modifier (Some ob) of None \<Rightarrow> ob | Some (i, ob1) \<Rightarrow> ob1) =
     (if 0 < fluid_count ob then fluid_count ob else if o_data ob = None then 0 else 1)"
  by (simp add: ensure_fluid_modifier_cases) (simp add: fluid_count_def fluid_NONE_def)

text \<open>
  C8, as the code has it. An object that has a fluid modifier is left as it is and the
  first fluid modifier of its list is returned. An object that has none and takes
  modifiers gets exactly one, appended and returned. An object that has none and takes
  no modifiers gets none, and \<open>None\<close> is returned. Either configurator then leaves the
  object with the fluid modifiers this call left it: as many as before if it had any,
  one if it had none and takes modifiers, none otherwise.
\<close>

theorem ensure_fluid_modifier_first_or_new:
  "ensure_fluid_modifier (Some ob) =
     (if 0 < fluid_count ob
      then Some (length (takeWhile (\<lambda>m. m_type m \<noteq> ''FLUID'') (o_modifiers ob)), ob)
      else if o_data ob = None then None
      else Some (length (o_modifiers ob), ob\<lparr>o_modifiers := o_modifiers ob @ [fluid_NONE]\<rparr>)) \<and>
   m_type fluid_NONE = ''FLUID'' \<and>
   (case ensure_fluid_modifier (Some ob) of
      None \<Rightarrow> True
    | Some (i, ob1) \<Rightarrow> i < length (o_modifiers ob1) \<and> m_type (o_modifiers ob1 ! i) = ''FLUID'') \<and>
   (case apply_domain_settings H (Some ob) s of
      None \<Rightarrow> False
    | Some ob' \<Rightarrow>
        fluid_count ob' =
          (if 0 < fluid_count ob then fluid_count ob else if o_data ob = None then 0 else 1)) \<and>
   (case apply_flow_settings H (Some ob) s of
      None \<Rightarrow> False
    | Some ob' \<Rightarrow>
        fluid_count ob' =
          (if 0 < fluid_count ob then fluid_count ob else if o_data ob = None then 0 else 1))"
proof (intro conjI)
  show "ensure_fluid_modifier (Some ob) =
     (if 0 < fluid_count ob
      then Some (length (takeWhile (\<lambda>m. m_type m \<noteq> ''FLUID'') (o_modifiers ob)), ob)
      else if o_data ob = None then None
      else Some (length (o_modifiers ob), ob\<lparr>o_modifiers := o_modifiers ob @ [fluid_NONE]\<rparr>))"
    by (rule ensure_fluid_modifier_cases)
  show "m_type fluid_NONE = ''FLUID''" by (simp add: fluid_NONE_def)
  show "case ensure_fluid_modifier (Some ob) of
      None \<Rightarrow> True
    | Some (i, ob1) \<Rightarrow> i < length (o_modifiers ob1) \<and> m_type (o_modifiers ob1 ! i) = ''FLUID''"
  proof (cases "index_of (\<lambda>m. m_type m = ''FLUID'') (o_modifiers ob)")
    case None
    then show ?thesis
      by (simp add: ensure_fluid_modifier_def modifiers_new_fluid_def fluid_NONE_def)
  next
    case (Some i)
    with index_of_Some [OF Some] show ?thesis by (simp add: ensure_fluid_modifier_def)
  qed
  let ?n = "if 0 < fluid_count ob then fluid_count ob else if o_data ob = None then 0 else 1"
  let ?e = "case ensure_fluid_modifier (Some ob) of None \<Rightarrow> ob | Some (i, ob1) \<Rightarrow> ob1"
  from apply_domain_settings_Some [of H ob s] obtain ob' where
    a: "apply_domain_settings H (Some ob) s = Some ob'" by blast
  from apply_domain_settings_types [OF a] have "fluid_count ob' = fluid_count ?e"
    by (simp only: fluid_count_types)
  with a show "case apply_domain_settings H (Some ob) s of
      None \<Rightarrow> False | Some ob' \<Rightarrow> fluid_count ob' = ?n"
    by (simp only: fluid_count_after option.case)
  from apply_flow_settings_Some [of H ob s] obtain ob'' where
    b: "apply_flow_settings H (Some ob) s = Some ob''" by blast
  from apply_flow_settings_types [OF b] have "fluid_count ob'' = fluid_count ?e"
    by (simp only: fluid_count_types)
  with b show "case apply_flow_settings H (Some ob) s of
      None \<Rightarrow> False | Some ob' \<Rightarrow> fluid_count ob' = ?n"
    by (simp only: fluid_count_after option.case)
qed

text \<open>
  The claim as stated (exactly one fluid modifier after the call, for every object) fails
  on an object that takes no modifiers, such as an empty that carries the domain's name:
  the host gives no modifier, the call returns \<open>None\<close>, and the configurator returns at
  once and leaves the object without a fluid modifier.
\<close>

theorem ensure_fluid_modifier_empty_counterexample:
  "ensure_fluid_modifier (Some empty_object) = None \<and>
   apply_domain_settings plain_host (Some empty_object) default_settings = Some empty_object \<and>
   fluid_count empty_object = 0"
  by (simp add: apply_domain_settings_def ensure_fluid_modifier_def modifiers_new_fluid_def
      empty_object_def fluid_count_def)

section \<open>Properties of the operators\<close>

text \<open>
  C4: when the stored domain name or the stored emitter name does not resolve
  (\<open>_find_rig\<close> gives \<open>None\<close> for it), \<open>update_rig\<close> reports the warning, returns
  \<open>CANCELLED\<close> and leaves the whole document, settings included, as it was.
\<close>

theorem update_rig_without_rig:
  "fst (find_rig d) = None \<or> snd (find_rig d) = None \<Longrightarrow>
   update_rig H d = (CANCELLED, [(''WARNING'', ''No rig found. Click Create Fire Rig first.'')], d)"
  by (cases "find_rig d") (auto simp: update_rig_def split: option.splits)

theorem update_rig_without_rig_witness:
  "(fst (find_rig empty_document) = None \<or> snd (find_rig empty_document) = None) \<and>
   update_rig plain_host empty_document =
     (CANCELLED, [(''WARNING'', ''No rig found. Click Create Fire Rig first.'')], empty_document)"
proof -
  have h: "fst (find_rig empty_document) = None \<or> snd (find_rig empty_document) = None"
    by (simp add: find_rig_def empty_document_def default_settings_def)
  from h update_rig_without_rig [OF h, of plain_host] show ?thesis by simp
qed

lemma bake_all_None:
  "fst (find_rig d) = None \<Longrightarrow>
   bake_all H d = (CANCELLED, [(''WARNING'', ''No domain found. Create the rig first.'')], d)"
  by (simp add: bake_all_def)

lemma ops_log_make_active:
  "ops_log (make_active H domain d) = ops_log d @ [''object.select_all'']"
  by (simp add: make_active_def update_object_def)

text \<open>
  What \<open>bake_all\<close> returns for a domain, by what the host's operators do: the first
  bake on the document after the selection housekeeping, the free on the document the
  failed bake left, the second bake on the document the free left.
\<close>

lemma bake_all_Some:
  assumes "fst (find_rig d) = Some domain"
  shows "bake_all H d =
     (let d1 = make_active H domain d;
          d2 = d1\<lparr>ops_log := ops_log d1 @ [''fluid.bake_all'']\<rparr>;
          d3 = d2\<lparr>ops_log := ops_log d2 @ [''fluid.free_all'']\<rparr>;
          d4 = d3\<lparr>ops_log := ops_log d3 @ [''fluid.bake_all''], baked := False\<rparr>
      in case bake_all_raises H d1 of
           None \<Rightarrow> (FINISHED, [], d2\<lparr>baked := True\<rparr>)
         | Some e1 \<Rightarrow>
             (case free_all_raises H d2 of
                Some e \<Rightarrow> (CANCELLED, [(''ERROR'', ''Bake failed: '' @ e)], d3)
              | None \<Rightarrow>
                  (case bake_all_raises H (d3\<lparr>baked := False\<rparr>) of
                     None \<Rightarrow> (FINISHED, [], d4\<lparr>baked := True\<rparr>)
                   | Some e \<Rightarrow> (CANCELLED, [(''ERROR'', ''Bake failed: '' @ e)], d4))))"
  using assms
  by (simp add: bake_all_def fluid_bake_all_def fluid_free_all_def Let_def
      split: option.splits)

lemma invocations_append:
  "invocations op (d\<lparr>ops_log := ops_log d @ xs\<rparr>) =
     invocations op d + length (filter (\<lambda>x. x = op) xs)"
  by (simp add: invocations_def)

text \<open>
  C9. Without a domain object \<open>bake_all\<close> reports the warning, returns \<open>CANCELLED\<close> and
  leaves the document as it was. With one it never raises, and what it does is decided
  by the host's operators alone. After the selection housekeeping it invokes the host's
  bake. If that bake does not raise, it finishes: one bake, no free. If it raises, free
  is invoked, once; if free raises, the error is reported and the status is \<open>CANCELLED\<close>,
  with no second bake. If free does not raise, bake is invoked a second time, on the
  document free left: the operator finishes if this bake does not raise, and reports the
  error and returns \<open>CANCELLED\<close> if it raises. So bake is invoked twice exactly when
  the first bake raised and free did not, and once otherwise; free is invoked once
  exactly when the first bake raised; there is no third bake.
\<close>

theorem bake_all_retries_once:
  "case fst (find_rig d) of
     None \<Rightarrow>
       bake_all H d = (CANCELLED, [(''WARNING'', ''No domain found. Create the rig first.'')], d)
   | Some domain \<Rightarrow>
       (let d1 = make_active H domain d;
            d2 = d1\<lparr>ops_log := ops_log d1 @ [''fluid.bake_all'']\<rparr>;
            d3 = d2\<lparr>ops_log := ops_log d2 @ [''fluid.free_all'']\<rparr>;
            d4 = d3\<lparr>ops_log := ops_log d3 @ [''fluid.bake_all''], baked := False\<rparr>
        in bake_all H d =
             (case bake_all_raises H d1 of
                None \<Rightarrow> (FINISHED, [], d2\<lparr>baked := True\<rparr>)
              | Some e1 \<Rightarrow>
                  (case free_all_raises H d2 of
                     Some e \<Rightarrow> (CANCELLED, [(''ERROR'', ''Bake failed: '' @ e)], d3)
                   | None \<Rightarrow>
                       (case bake_all_raises H (d3\<lparr>baked := False\<rparr>) of
                          None \<Rightarrow> (FINISHED, [], d4\<lparr>baked := True\<rparr>)
                        | Some e \<Rightarrow> (CANCELLED, [(''ERROR'', ''Bake failed: '' @ e)], d4)))) \<and>
           invocations ''fluid.bake_all'' (doc_of (bake_all H d)) =
             invocations ''fluid.bake_all'' d +
               (if bake_all_raises H d1 \<noteq> None \<and> free_all_raises H d2 = None then 2 else 1) \<and>
           invocations ''fluid.free_all'' (doc_of (bake_all H d)) =
             invocations ''fluid.free_all'' d + (if bake_all_raises H d1 \<noteq> None then 1 else 0))"
proof (cases "fst (find_rig d)")
  case None
  then show ?thesis by (simp add: bake_all_None)
next
  case (Some domain)
  let ?d1 = "make_active H domain d"
  let ?d2 = "?d1\<lparr>ops_log := ops_log ?d1 @ [''fluid.bake_all'']\<rparr>"
  let ?d3 = "?d2\<lparr>ops_log := ops_log ?d2 @ [''fluid.free_all'']\<rparr>"
  let ?d4 = "?d3\<lparr>ops_log := ops_log ?d3 @ [''fluid.bake_all''], baked := False\<rparr>"
  note eq = bake_all_Some [OF Some, of H, unfolded Let_def]
  have bake: "invocations ''fluid.bake_all'' (doc_of (bake_all H d)) =
      invocations ''fluid.bake_all'' d +
        (if bake_all_raises H ?d1 \<noteq> None \<and> free_all_raises H ?d2 = None then 2 else 1)"
    unfolding eq
    by (simp add: doc_of_def invocations_def ops_log_make_active split: option.splits)
  have free: "invocations ''fluid.free_all'' (doc_of (bake_all H d)) =
      invocations ''fluid.free_all'' d + (if bake_all_raises H ?d1 \<noteq> None then 1 else 0)"
    unfolding eq
    by (simp add: doc_of_def invocations_def ops_log_make_active split: option.splits)
  from eq bake free show ?thesis
    unfolding Some option.case Let_def by (intro conjI)
qed

text \<open>
  On a host whose bake raises until the cache is freed, the first bake fails, free is
  invoked and the second bake succeeds: the operator finishes after bake, free, bake.
\<close>

theorem bake_all_retries_once_witness:
  "fst (find_rig rig_document) = Some 0 \<and>
   fst (bake_all stale_cache_host rig_document) = FINISHED \<and>
   ops_log (doc_of (bake_all stale_cache_host rig_document)) =
     [''object.select_all'', ''fluid.bake_all'', ''fluid.free_all'', ''fluid.bake_all''] \<and>
   invocations ''fluid.bake_all'' (doc_of (bake_all stale_cache_host rig_document)) = 2 \<and>
   invocations ''fluid.free_all'' (doc_of (bake_all stale_cache_host rig_document)) = 1"
proof -
  have f: "fst (find_rig rig_document) = Some 0" by code_simp
  have l: "ops_log rig_document = []" by (simp add: rig_document_def)
  from bake_all_retries_once [where d = rig_document and H = stale_cache_host] f l show ?thesis
    by (simp add: Let_def stale_cache_host_def plain_host_def ops_log_make_active doc_of_def
        invocations_def)
qed

section \<open>What the rig operators leave alone\<close>

lemma frame_update_object:
  "o_name (g (objects d ! i)) = o_name (objects d ! i) \<Longrightarrow>
   rig_frame (update_object i g d) = rig_frame d"
  by (simp add: rig_frame_def update_object_def map_update_same)

lemma settings_update_object [simp]:
  "fire_vfx_settings (update_object i g d) = fire_vfx_settings d"
  by (simp add: update_object_def)

lemma frame_transform_apply: "rig_frame (transform_apply H d) = rig_frame d"
  by (simp add: rig_frame_def transform_apply_def)

lemma settings_transform_apply [simp]:
  "fire_vfx_settings (transform_apply H d) = fire_vfx_settings d"
  by (simp add: transform_apply_def)

lemma frame_apply_scale_of: "rig_frame (apply_scale_of H ob d) = rig_frame d"
proof -
  have "rig_frame (update_object ob (\<lambda>x. x\<lparr>o_selected := True\<rparr>) (d\<lparr>active_object := Some ob\<rparr>)) =
      rig_frame (d\<lparr>active_object := Some ob\<rparr>)"
    by (rule frame_update_object) simp
  then show ?thesis
    by (simp add: apply_scale_of_def frame_transform_apply) (simp add: rig_frame_def)
qed

lemma settings_apply_scale_of [simp]:
  "fire_vfx_settings (apply_scale_of H ob d) = fire_vfx_settings d"
  by (simp add: apply_scale_of_def)

lemma frame_apply_domain_settings_at:
  "rig_frame (apply_domain_settings_at H ob s d) = rig_frame d \<and>
   fire_vfx_settings (apply_domain_settings_at H ob s d) = fire_vfx_settings d"
proof -
  from apply_domain_settings_Some [of H "objects d ! ob" s] obtain ob' where
    "apply_domain_settings H (Some (objects d ! ob)) s = Some ob'"
    "o_name ob' = o_name (objects d ! ob)"
    by blast
  then show ?thesis
    by (simp add: apply_domain_settings_at_def rig_frame_def map_update_same)
qed

lemma frame_apply_flow_settings_at:
  "rig_frame (apply_flow_settings_at H ob s d) = rig_frame d \<and>
   fire_vfx_settings (apply_flow_settings_at H ob s d) = fire_vfx_settings d"
proof -
  from apply_flow_settings_Some [of H "objects d ! ob" s] obtain ob' where
    "apply_flow_settings H (Some (objects d ! ob)) s = Some ob'"
    "o_name ob' = o_name (objects d ! ob)"
    by blast
  then show ?thesis
    by (simp add: apply_flow_settings_at_def rig_frame_def map_update_same)
qed

lemma get_or_create_material_fields:
  "objects (snd (get_or_create_material H name d)) = objects d"
  "collections (snd (get_or_create_material H name d)) = collections d"
  "scene_objects (snd (get_or_create_material H name d)) = scene_objects d"
  "scene_children (snd (get_or_create_material H name d)) = scene_children d"
  "fire_vfx_settings (snd (get_or_create_material H name d)) = fire_vfx_settings d"
  by (simp_all add: get_or_create_material_def Let_def split: option.splits prod.splits)

lemma frame_ensure_domain_material:
  "rig_frame (snd (ensure_domain_material H x s d)) = rig_frame d \<and>
   fire_vfx_settings (snd (ensure_domain_material H x s d)) = fire_vfx_settings d"
proof (cases x)
  case None
  then show ?thesis by (simp add: ensure_domain_material_def)
next
  case (Some di)
  obtain mi d1 where g: "get_or_create_material H MATERIAL_NAME d = (mi, d1)"
    by (cases "get_or_create_material H MATERIAL_NAME d")
  from get_or_create_material_fields [of H MATERIAL_NAME d] g
  have d1: "objects d1 = objects d" "collections d1 = collections d"
    "scene_objects d1 = scene_objects d" "scene_children d1 = scene_children d"
    "fire_vfx_settings d1 = fire_vfx_settings d"
    by simp_all
  show ?thesis
    using Some g d1
    by (auto simp: ensure_domain_material_def assign_first_slot_def Let_def rig_frame_def
        map_update_same split: prod.splits sum.splits option.splits)
qed

lemma frame_set_display_type:
  "rig_frame (set_display_type H ob v d) = rig_frame d \<and>
   fire_vfx_settings (set_display_type H ob v d) = fire_vfx_settings d"
proof -
  have "rig_frame (set_display_type H ob v d) = rig_frame d"
    unfolding set_display_type_def
    by (rule frame_update_object) (simp add: set_if_has_def)
  then show ?thesis by (simp add: set_display_type_def)
qed

lemma frame_update_rig_found:
  "rig_frame (doc_of (update_rig_found H dm em d)) = rig_frame d \<and>
   fire_vfx_settings (doc_of (update_rig_found H dm em d)) = fire_vfx_settings d"
proof (cases "half_size (domain_size (fire_vfx_settings d))")
  case (Inl e)
  then show ?thesis by (simp add: update_rig_found_def doc_of_def)
next
  case (Inr sc)
  let ?s = "fire_vfx_settings d"
  let ?d1 = "update_object dm (\<lambda>x. x\<lparr>o_scale := sc\<rparr>) d"
  let ?d2 = "update_object em (\<lambda>x. x\<lparr>o_scale := emitter_scale ?s\<rparr>) ?d1"
  let ?d3 = "if apply_scale_on_update ?s
             then apply_scale_of H em (apply_scale_of H dm ?d2) else ?d2"
  let ?d4 = "apply_domain_settings_at H dm ?s ?d3"
  let ?d5 = "apply_flow_settings_at H em ?s ?d4"
  have f1: "rig_frame ?d1 = rig_frame d" by (rule frame_update_object) simp
  have f2: "rig_frame ?d2 = rig_frame ?d1" by (rule frame_update_object) simp
  have f3: "rig_frame ?d3 = rig_frame ?d2" by (simp add: frame_apply_scale_of)
  have s3: "fire_vfx_settings ?d3 = ?s" by simp
  have f5: "rig_frame ?d5 = rig_frame d"
    using f1 f2 f3 by (simp only: frame_apply_domain_settings_at frame_apply_flow_settings_at)
  have s5: "fire_vfx_settings ?d5 = ?s"
    using s3 by (simp only: frame_apply_domain_settings_at frame_apply_flow_settings_at)
  have u: "doc_of (update_rig_found H dm em d) = snd (ensure_domain_material H (Some dm) ?s ?d5)"
    using Inr
    by (simp add: update_rig_found_def doc_of_def Let_def split: prod.splits option.splits)
  show ?thesis
    using f5 s5 by (simp only: u frame_ensure_domain_material)
qed

text \<open>
  The second half of \<open>create_rig\<close> is the body of \<open>update_rig\<close>, followed, when that
  finishes, by the two name writes and the two display writes.
\<close>

lemma create_rig_from_sizes_eq:
  "create_rig_from_sizes H dm em d =
     (case update_rig_found H dm em d of
        (FINISHED, r, d') \<Rightarrow>
          (FINISHED, r,
           set_display_type H em ''SOLID'' (set_display_type H dm ''WIRE''
             (d'\<lparr>fire_vfx_settings := (fire_vfx_settings d')
                   \<lparr>domain_object_name := o_name (objects d' ! dm),
                    emitter_object_name := o_name (objects d' ! em)\<rparr>\<rparr>)))
      | (CANCELLED, r, d') \<Rightarrow> (CANCELLED, r, d')
      | (RAISED e, r, d') \<Rightarrow> (RAISED e, r, d'))"
  by (simp add: create_rig_from_sizes_def update_rig_found_def Let_def
      split: sum.splits prod.splits option.splits)

lemma frame_create_rig_from_sizes:
  "rig_frame (doc_of (create_rig_from_sizes H dm em d)) = rig_frame d"
proof -
  obtain out r d' where u: "update_rig_found H dm em d = (out, r, d')"
    by (cases "update_rig_found H dm em d")
  from frame_update_rig_found [of H dm em d] u have f: "rig_frame d' = rig_frame d"
    by (simp add: doc_of_def)
  show ?thesis
  proof (cases out)
    case FINISHED
    let ?d7 = "d'\<lparr>fire_vfx_settings := (fire_vfx_settings d')
                   \<lparr>domain_object_name := o_name (objects d' ! dm),
                    emitter_object_name := o_name (objects d' ! em)\<rparr>\<rparr>"
    have "rig_frame ?d7 = rig_frame d'" by (simp add: rig_frame_def)
    with f FINISHED u show ?thesis
      by (simp add: create_rig_from_sizes_eq doc_of_def frame_set_display_type)
  next
    case CANCELLED
    with f u show ?thesis by (simp add: create_rig_from_sizes_eq doc_of_def)
  next
    case (RAISED e)
    with f u show ?thesis by (simp add: create_rig_from_sizes_eq doc_of_def)
  qed
qed

lemma objects_get_Some:
  "objects_get d name = Some i \<Longrightarrow> i < length (objects d) \<and> o_name (objects d ! i) = name"
  unfolding objects_get_def by (drule index_of_Some) simp






section \<open>Properties of the shader builder\<close>

lemma nt_bind_nodes_clear: "nt_bind nodes_clear f t = f () \<lparr>nodes = [], links = []\<rparr>"
  by (simp add: nt_bind_def nodes_clear_def)

text \<open>The build starts by clearing the tree, so its result does not depend on the tree it finds.\<close>

lemma build_volume_shader_any_tree:
  "build_volume_shader H a b ramp t = build_volume_shader H a b ramp t'"
  by (simp only: build_volume_shader_def nt_bind_nodes_clear)

lemma index_of_map_cong: "map P xs = map P ys \<Longrightarrow> index_of P xs = index_of P ys"
proof (induction xs arbitrary: ys)
  case Nil
  then show ?case by simp
next
  case (Cons x xs)
  then obtain y ys' where ys: "ys = y # ys'" by (cases ys) auto
  with Cons.prems have "P x = P y" "map P xs = map P ys'" by simp_all
  with Cons.IH [of ys'] ys show ?case by simp
qed

lemma index_of_update_same:
  "P y = P (xs ! i) \<Longrightarrow> index_of P (xs[i := y]) = index_of P xs"
  by (rule index_of_map_cong) (rule map_update_same)

lemma index_of_append_new:
  "index_of P xs = None \<Longrightarrow> P y \<Longrightarrow> index_of P (xs @ [y]) = Some (length xs)"
  by (induction xs) (auto split: if_splits)

text \<open>After the call, the material is found under its name, with nodes enabled.\<close>

lemma get_or_create_material_found:
  assumes "get_or_create_material H name d = (mi, d1)"
  shows "index_of (\<lambda>m. mat_name m = name) (materials d1) = Some mi \<and>
         mi < length (materials d1) \<and> use_nodes (materials d1 ! mi)"
proof (cases "index_of (\<lambda>m. mat_name m = name) (materials d)")
  case None
  let ?new = "\<lparr>mat_name = name, use_nodes = True, mat_tree = default_tree H\<rparr>"
  from None assms have d1: "materials d1 = materials d @ [?new]" and mi: "mi = length (materials d)"
    by (auto simp: get_or_create_material_def Let_def)
  from index_of_append_new [OF None, of ?new] show ?thesis
    by (simp add: d1 mi)
next
  case (Some i)
  from index_of_Some [OF Some] have i: "i < length (materials d)"
    and n: "mat_name (materials d ! i) = name" by simp_all
  let ?m = "materials d ! i"
  let ?m' = "if use_nodes ?m then ?m else ?m\<lparr>use_nodes := True, mat_tree := default_tree H\<rparr>"
  from Some assms have d1: "materials d1 = (materials d)[i := ?m']" and mi: "mi = i"
    by (auto simp: get_or_create_material_def Let_def)
  have "index_of (\<lambda>m. mat_name m = name) ((materials d)[i := ?m']) =
      index_of (\<lambda>m. mat_name m = name) (materials d)"
    by (rule index_of_update_same) simp
  with Some i show ?thesis by (simp add: d1 mi)
qed

lemma get_or_create_material_again:
  assumes "index_of (\<lambda>m. mat_name m = name) (materials d) = Some mi"
    and "use_nodes (materials d ! mi)"
  shows "get_or_create_material H name d = (mi, d)"
  using assms by (simp add: get_or_create_material_def Let_def)

lemma assign_first_slot_materials [simp]:
  "materials (assign_first_slot di mi d) = materials d"
  by (simp add: assign_first_slot_def split: option.splits)

lemma assign_first_slot_idem:
  assumes "di < length (objects d)"
  shows "assign_first_slot di mi (assign_first_slot di mi d) = assign_first_slot di mi d"
proof (cases "o_data (objects d ! di)")
  case None
  then show ?thesis by (simp add: assign_first_slot_def)
next
  case (Some me)
  with assms show ?thesis
    by (cases "me_materials me") (simp_all add: assign_first_slot_def)
qed

lemma assign_first_slot_length [simp]:
  "length (objects (assign_first_slot di mi d)) = length (objects d)"
  by (simp add: assign_first_slot_def split: option.splits)

text \<open>One call, given what its two sub-calls return.\<close>

lemma ensure_domain_material_steps:
  assumes "get_or_create_material H MATERIAL_NAME d = (mi, d1)"
    and "build_volume_shader H (flame_strength s) (smoke_density s)
           [(0.0, flame_color_low s), (0.25, flame_color_mid s), (1.0, flame_color_high s)] t0 = (r, t)"
  shows "ensure_domain_material H (Some di) s d =
     (case r of
        Inl e \<Rightarrow> (Some e, d1\<lparr>materials := (materials d1)[mi := (materials d1 ! mi)\<lparr>mat_tree := t\<rparr>]\<rparr>)
      | Inr _ \<Rightarrow> (None, assign_first_slot di mi
                        (d1\<lparr>materials := (materials d1)[mi := (materials d1 ! mi)\<lparr>mat_tree := t\<rparr>]\<rparr>)))"
proof -
  have "build_volume_shader H (flame_strength s) (smoke_density s)
           [(0.0, flame_color_low s), (0.25, flame_color_mid s), (1.0, flame_color_high s)]
           (mat_tree (materials d1 ! mi)) = (r, t)"
    using assms(2) build_volume_shader_any_tree by metis
  with assms(1) show ?thesis
    by (simp add: ensure_domain_material_def Let_def)
qed

lemma ensure_domain_material_idem:
  assumes "di < length (objects d)"
  shows "ensure_domain_material H (Some di) s (snd (ensure_domain_material H (Some di) s d)) =
         ensure_domain_material H (Some di) s d"
proof -
  obtain mi d1 where g: "get_or_create_material H MATERIAL_NAME d = (mi, d1)"
    by (cases "get_or_create_material H MATERIAL_NAME d")
  obtain r t where b: "build_volume_shader H (flame_strength s) (smoke_density s)
      [(0.0, flame_color_low s), (0.25, flame_color_mid s), (1.0, flame_color_high s)]
      \<lparr>nodes = [], links = []\<rparr> = (r, t)"
    by (cases "build_volume_shader H (flame_strength s) (smoke_density s)
      [(0.0, flame_color_low s), (0.25, flame_color_mid s), (1.0, flame_color_high s)]
      \<lparr>nodes = [], links = []\<rparr>")
  let ?P = "\<lambda>m. mat_name m = MATERIAL_NAME"
  let ?M = "(materials d1 ! mi)\<lparr>mat_tree := t\<rparr>"
  let ?d2 = "d1\<lparr>materials := (materials d1)[mi := ?M]\<rparr>"
  from get_or_create_material_found [OF g]
  have f: "index_of ?P (materials d1) = Some mi" and l: "mi < length (materials d1)"
    and u: "use_nodes (materials d1 ! mi)" by simp_all
  from get_or_create_material_fields(1) [of H MATERIAL_NAME d] g
  have o1: "objects d1 = objects d" by simp
  have f2: "index_of ?P (materials ?d2) = Some mi"
    using f index_of_update_same [of ?P ?M "materials d1" mi] by simp
  have u2: "use_nodes (materials ?d2 ! mi)" using l u by simp
  have t2: "(materials ?d2 ! mi)\<lparr>mat_tree := t\<rparr> = materials ?d2 ! mi" using l by simp
  have first: "ensure_domain_material H (Some di) s d =
     (case r of Inl e \<Rightarrow> (Some e, ?d2) | Inr _ \<Rightarrow> (None, assign_first_slot di mi ?d2))"
    by (rule ensure_domain_material_steps [OF g b])
  have again: "ensure_domain_material H (Some di) s x =
     (case r of Inl e \<Rightarrow> (Some e, x) | Inr _ \<Rightarrow> (None, assign_first_slot di mi x))"
    if "materials x = materials ?d2" for x
  proof -
    from that f2 u2 have gx: "get_or_create_material H MATERIAL_NAME x = (mi, x)"
      by (intro get_or_create_material_again) simp_all
    from that t2 have "(materials x ! mi)\<lparr>mat_tree := t\<rparr> = materials x ! mi"
      by simp
    then have "(materials x)[mi := (materials x ! mi)\<lparr>mat_tree := t\<rparr>] = materials x"
      by simp
    then have eq: "x\<lparr>materials := (materials x)[mi := (materials x ! mi)\<lparr>mat_tree := t\<rparr>]\<rparr> = x"
      by simp
    have st: "ensure_domain_material H (Some di) s x =
       (case r of
          Inl e \<Rightarrow> (Some e, x\<lparr>materials := (materials x)[mi := (materials x ! mi)\<lparr>mat_tree := t\<rparr>]\<rparr>)
        | Inr _ \<Rightarrow> (None, assign_first_slot di mi
                          (x\<lparr>materials := (materials x)[mi := (materials x ! mi)\<lparr>mat_tree := t\<rparr>]\<rparr>)))"
      by (rule ensure_domain_material_steps [OF gx b])
    show ?thesis by (simp only: st eq)
  qed
  show ?thesis
  proof (cases r)
    case (Inl e)
    with first again [of ?d2] show ?thesis by simp
  next
    case (Inr x)
    have "di < length (objects ?d2)" using assms o1 by simp
    from assign_first_slot_idem [OF this, of mi]
    show ?thesis using Inr first again [of "assign_first_slot di mi ?d2"] by simp
  qed
qed

text \<open>
  C6: a second call of \<open>_ensure_domain_material\<close> with the same settings returns what
  the first returned and leaves the document as the first left it: the same material,
  with the same nodes, links and parameter values, in the same slot of the object. On a
  3.x host the graph has seven nodes and seven links.
\<close>

theorem shader_rebuild_idempotent:
  assumes "di < length (objects d)"
  shows "ensure_domain_material H (Some di) s (snd (ensure_domain_material H (Some di) s d)) =
         ensure_domain_material H (Some di) s d"
  using assms by (rule ensure_domain_material_idem)

theorem shader_rebuild_idempotent_witness:
  "0 < length (objects rig_document) \<and>
   ensure_domain_material plain_host (Some 0) default_settings
     (snd (ensure_domain_material plain_host (Some 0) default_settings rig_document)) =
   ensure_domain_material plain_host (Some 0) default_settings rig_document \<and>
   fst (ensure_domain_material plain_host (Some 0) default_settings rig_document) = None \<and>
   length (nodes (mat_tree (materials
     (snd (ensure_domain_material plain_host (Some 0) default_settings rig_document)) ! 0))) = 7 \<and>
   length (links (mat_tree (materials
     (snd (ensure_domain_material plain_host (Some 0) default_settings rig_document)) ! 0))) = 7"
proof -
  have h: "0 < length (objects rig_document)" by (simp add: rig_document_def)
  have e: "fst (ensure_domain_material plain_host (Some 0) default_settings rig_document) = None"
    by code_simp
  have n: "length (nodes (mat_tree (materials
     (snd (ensure_domain_material plain_host (Some 0) default_settings rig_document)) ! 0))) = 7"
    by code_simp
  have k: "length (links (mat_tree (materials
     (snd (ensure_domain_material plain_host (Some 0) default_settings rig_document)) ! 0))) = 7"
    by code_simp
  from h e n k shader_rebuild_idempotent [OF h, of plain_host default_settings]
  show ?thesis by simp
qed

section \<open>Creating the rig twice\<close>

lemma index_of_map: "index_of P (map f xs) = index_of (\<lambda>x. P (f x)) xs"
  by (induction xs) simp_all

lemma objects_get_names:
  "objects_get d n = index_of (\<lambda>m. m = n) (map o_name (objects d))"
  by (simp add: objects_get_def index_of_map)

lemma collection_index_names:
  "index_of (\<lambda>c. c_name c = n) cs = index_of (\<lambda>m. m = n) (map c_name cs)"
  by (simp add: index_of_map)

lemma index_of_append_Some: "index_of P xs = Some i \<Longrightarrow> index_of P (xs @ ys) = Some i"
  by (induction xs arbitrary: i) (auto split: if_splits)

lemma index_of_append_None:
  "index_of P xs = None \<Longrightarrow> index_of P (xs @ [y]) = (if P y then Some (length xs) else None)"
  by (induction xs) (auto split: if_splits)

lemma index_of_append_other: "\<not> P y \<Longrightarrow> index_of P (xs @ [y]) = index_of P xs"
  by (induction xs) simp_all

lemma index_of_name_None: "index_of (\<lambda>m. m = n) ns = None \<longleftrightarrow> n \<notin> set ns"
  by (induction ns) auto

lemma count_distinct_name:
  "distinct ns \<Longrightarrow> n \<in> set ns \<Longrightarrow> length (filter (\<lambda>m. m = n) ns) = 1"
proof (induction ns)
  case Nil
  then show ?case by simp
next
  case (Cons a ns)
  show ?case
  proof (cases "a = n")
    case True
    with Cons.prems have "n \<notin> set ns" by simp
    then have "filter (\<lambda>m. m = n) ns = []" by (auto simp: filter_empty_conv)
    with True show ?thesis by simp
  next
    case False
    with Cons show ?thesis by simp
  qed
qed

lemma objects_named_names:
  "objects_named n d = length (filter (\<lambda>m. m = n) (map o_name (objects d)))"
  by (simp add: objects_named_def filter_map o_def)

text \<open>The object added under a name is the last one; nothing else is renamed or moved.\<close>

lemma add_named_fst: "fst (add_named prim loc n d) = length (objects d)"
  by (simp add: add_named_def primitive_add_def)

lemma add_named_names:
  "map o_name (objects (snd (add_named prim loc n d))) = map o_name (objects d) @ [n]"
  by (simp add: add_named_def primitive_add_def update_object_def list_update_append o_def)

lemma add_named_collections:
  "collections (snd (add_named prim loc n d)) = collections d"
  by (simp add: add_named_def primitive_add_def update_object_def)

text \<open>An object looked up by name, and added under that name if the lookup finds none.\<close>

lemma lookup_or_add:
  assumes "r = (case index_of (\<lambda>m. m = n) (map o_name (objects d)) of
                  Some i \<Rightarrow> (i, d)
                | None \<Rightarrow> add_named prim loc n d)"
  shows "map o_name (objects (snd r)) =
           (if n \<in> set (map o_name (objects d)) then map o_name (objects d)
            else map o_name (objects d) @ [n]) \<and>
         index_of (\<lambda>m. m = n) (map o_name (objects (snd r))) = Some (fst r) \<and>
         collections (snd r) = collections d \<and>
         set_option (index_of (\<lambda>m. m = n) (map o_name (objects d))) \<subseteq> {fst r}"
proof (cases "index_of (\<lambda>m. m = n) (map o_name (objects d))")
  case None
  let ?ns = "map o_name (objects d)"
  from None have notin: "n \<notin> set ?ns" using index_of_name_None [of n ?ns] by simp
  from None assms have r: "r = add_named prim loc n d" by simp
  have "index_of (\<lambda>m. m = n) (?ns @ [n]) = Some (length ?ns)"
    using index_of_append_None [OF None, of n] by simp
  with notin None show ?thesis
    by (simp add: r add_named_names add_named_fst add_named_collections)
next
  case (Some i)
  let ?ns = "map o_name (objects d)"
  from Some have isin: "n \<in> set ?ns" using index_of_name_None [of n ?ns] by simp
  from Some assms have r: "r = (i, d)" by simp
  from isin Some show ?thesis by (simp add: r)
qed

lemma ensure_collection_shape:
  obtains col d1 where "ensure_collection n d = (col, d1)"
    and "index_of (\<lambda>c. c_name c = n) (collections d1) = Some col"
    and "objects d1 = objects d"
    and "collection_members n d1 = collection_members n d"
proof (cases "index_of (\<lambda>c. c_name c = n) (collections d)")
  case None
  let ?d1 = "d\<lparr>collections := collections d @ [\<lparr>c_name = n, c_objects = []\<rparr>],
               scene_children := scene_children d @ [length (collections d)]\<rparr>"
  have i: "index_of (\<lambda>c. c_name c = n) (collections ?d1) = Some (length (collections d))"
    using index_of_append_None [OF None, of "\<lparr>c_name = n, c_objects = []\<rparr>"] by simp
  show ?thesis
  proof (rule that [of "length (collections d)" ?d1])
    show "ensure_collection n d = (length (collections d), ?d1)"
      using None by (simp add: ensure_collection_def)
    show "index_of (\<lambda>c. c_name c = n) (collections ?d1) = Some (length (collections d))"
      by (rule i)
    show "objects ?d1 = objects d" by simp
    show "collection_members n ?d1 = collection_members n d"
      unfolding collection_members_def i using None by simp
  qed
next
  case (Some col)
  show ?thesis
  proof (rule that [of col d])
    show "ensure_collection n d = (col, d)" using Some by (simp add: ensure_collection_def)
  qed (simp_all add: Some)
qed

lemma names_differ: "DOMAIN_NAME \<noteq> EMITTER_NAME"
  by (simp add: DOMAIN_NAME_def EMITTER_NAME_def)

text \<open>
  The first half of \<open>create_rig\<close>: after the collection is there and both objects are,
  the two objects are linked, one after the other. Objects are added at the end only, and
  only under a name that no object has.
\<close>

lemma create_rig_objects_shape:
  obtains dm em col d3 where
    "create_rig_objects d = (dm, em, link_to_collection em col (link_to_collection dm col d3))"
    and "index_of (\<lambda>c. c_name c = COLLECTION_NAME) (collections d3) = Some col"
    and "objects_get d3 DOMAIN_NAME = Some dm"
    and "objects_get d3 EMITTER_NAME = Some em"
    and "collection_members COLLECTION_NAME d3 = collection_members COLLECTION_NAME d"
    and "set_option (objects_get d DOMAIN_NAME) \<subseteq> {dm}"
    and "set_option (objects_get d EMITTER_NAME) \<subseteq> {em}"
    and "distinct (map o_name (objects d)) \<Longrightarrow> distinct (map o_name (objects d3))"
proof -
  obtain col d1 where e: "ensure_collection COLLECTION_NAME d = (col, d1)"
    and c1: "index_of (\<lambda>c. c_name c = COLLECTION_NAME) (collections d1) = Some col"
    and o1: "objects d1 = objects d"
    and m1: "collection_members COLLECTION_NAME d1 = collection_members COLLECTION_NAME d"
    by (rule ensure_collection_shape)
  let ?ns = "map o_name (objects d)"
  define r where "r = (case index_of (\<lambda>m. m = DOMAIN_NAME) (map o_name (objects d1)) of
      Some i \<Rightarrow> (i, d1) | None \<Rightarrow> add_named ''cube'' [0.0, 0.0, 1.0] DOMAIN_NAME d1)"
  note ar = lookup_or_add [OF r_def]
  note a = ar [THEN conjunct1] ar [THEN conjunct2, THEN conjunct1]
    ar [THEN conjunct2, THEN conjunct2, THEN conjunct1]
    ar [THEN conjunct2, THEN conjunct2, THEN conjunct2]
  let ?ns2 = "map o_name (objects (snd r))"
  have ns2: "?ns2 = (if DOMAIN_NAME \<in> set ?ns then ?ns else ?ns @ [DOMAIN_NAME])"
    using a(1) by (simp add: o1)
  have e2: "index_of (\<lambda>m. m = EMITTER_NAME) ?ns2 = index_of (\<lambda>m. m = EMITTER_NAME) ?ns"
    using names_differ by (simp add: ns2 index_of_append_other)
  define q where "q = (case index_of (\<lambda>m. m = EMITTER_NAME) (map o_name (objects (snd r))) of
      Some i \<Rightarrow> (i, snd r) | None \<Rightarrow> add_named ''cylinder'' [0.0, 0.0, 0.25] EMITTER_NAME (snd r))"
  note bq = lookup_or_add [OF q_def]
  note b = bq [THEN conjunct1] bq [THEN conjunct2, THEN conjunct1]
    bq [THEN conjunct2, THEN conjunct2, THEN conjunct1]
    bq [THEN conjunct2, THEN conjunct2, THEN conjunct2]
  let ?ns3 = "map o_name (objects (snd q))"
  have ns3: "?ns3 = (if EMITTER_NAME \<in> set ?ns2 then ?ns2 else ?ns2 @ [EMITTER_NAME])"
    using b(1) by simp
  have dm3: "index_of (\<lambda>m. m = DOMAIN_NAME) ?ns3 = Some (fst r)"
    using a(2) by (simp add: ns3 index_of_append_Some)
  have q': "q = (case index_of (\<lambda>m. m = EMITTER_NAME) (map o_name (objects d1)) of
      Some i \<Rightarrow> (i, snd r) | None \<Rightarrow> add_named ''cylinder'' [0.0, 0.0, 0.25] EMITTER_NAME (snd r))"
    unfolding q_def e2 o1 ..
  have cr: "create_rig_objects d =
      (fst r, fst q, link_to_collection (fst q) col (link_to_collection (fst r) col (snd q)))"
    unfolding q' r_def create_rig_objects_def e objects_get_names Let_def case_prod_beta
      fst_conv snd_conv ..
  show ?thesis
  proof (rule that [of "fst r" "fst q" col "snd q"])
    show "create_rig_objects d =
      (fst r, fst q, link_to_collection (fst q) col (link_to_collection (fst r) col (snd q)))"
      by (rule cr)
    show "index_of (\<lambda>c. c_name c = COLLECTION_NAME) (collections (snd q)) = Some col"
      using c1 by (simp add: a(3) b(3))
    show "objects_get (snd q) DOMAIN_NAME = Some (fst r)"
      using dm3 by (simp add: objects_get_names)
    show "objects_get (snd q) EMITTER_NAME = Some (fst q)"
      using b(2) by (simp add: objects_get_names)
    show "collection_members COLLECTION_NAME (snd q) = collection_members COLLECTION_NAME d"
      using m1 by (simp only: collection_members_def a(3) b(3))
    show "set_option (objects_get d DOMAIN_NAME) \<subseteq> {fst r}"
      using a(4) by (simp add: objects_get_names o1)
    show "set_option (objects_get d EMITTER_NAME) \<subseteq> {fst q}"
      using b(4) by (simp add: objects_get_names e2)
    show "distinct (map o_name (objects (snd q)))" if "distinct (map o_name (objects d))"
      using that by (simp add: ns3 ns2)
  qed
qed

text \<open>What linking an object to a collection does to the document.\<close>

lemma link_objects [simp]: "objects (link_to_collection ob col d) = objects d"
  by (simp add: link_to_collection_def collection_link_def unlink_everywhere_def)

lemma link_scene_children [simp]:
  "scene_children (link_to_collection ob col d) = scene_children d"
  by (simp add: link_to_collection_def collection_link_def unlink_everywhere_def)

lemma link_scene_objects [simp]:
  "scene_objects (link_to_collection ob col d) = removeAll ob (scene_objects d)"
  by (simp add: link_to_collection_def collection_link_def unlink_everywhere_def)

lemma link_length [simp]:
  "length (collections (link_to_collection ob col d)) = length (collections d)"
  by (simp add: link_to_collection_def collection_link_def unlink_everywhere_def)

lemma link_nth:
  assumes "col < length (collections d)" and "i < length (collections d)"
  shows "collections (link_to_collection ob col d) ! i =
     (collections d ! i)\<lparr>c_objects :=
        removeAll ob (c_objects (collections d ! i)) @ (if i = col then [ob] else [])\<rparr>"
  using assms
  by (simp add: link_to_collection_def collection_link_def unlink_everywhere_def nth_list_update)

lemma link_names:
  assumes "col < length (collections d)"
  shows "map c_name (collections (link_to_collection ob col d)) = map c_name (collections d)"
proof (rule nth_equalityI)
  show "length (map c_name (collections (link_to_collection ob col d))) =
        length (map c_name (collections d))" by simp
next
  fix i assume "i < length (map c_name (collections (link_to_collection ob col d)))"
  then have i: "i < length (collections d)" by simp
  with assms show "map c_name (collections (link_to_collection ob col d)) ! i =
      map c_name (collections d) ! i"
    by (simp add: link_nth)
qed

lemma frame_link:
  "rig_frame d = rig_frame d' \<Longrightarrow>
   rig_frame (link_to_collection ob col d) = rig_frame (link_to_collection ob col d')"
  by (simp add: rig_frame_def link_to_collection_def collection_link_def unlink_everywhere_def)

lemma relink_members:
  assumes "dm \<noteq> em" and "ys = [dm] \<and> zs = [em] \<or> ys = [] \<and> zs = []"
  shows "removeAll em (removeAll dm (removeAll em (removeAll dm xs @ ys) @ zs) @ ys) @ zs =
         removeAll em (removeAll dm xs @ ys) @ zs"
  using assms by (auto simp: removeAll_id)

text \<open>Linking the two objects again changes neither the names nor any membership.\<close>

lemma link_twice_again:
  assumes "dm \<noteq> em" and "col < length (collections d)"
  shows "rig_frame (link_to_collection em col (link_to_collection dm col
           (link_to_collection em col (link_to_collection dm col d)))) =
         rig_frame (link_to_collection em col (link_to_collection dm col d))"
proof -
  let ?L = "\<lambda>x. link_to_collection em col (link_to_collection dm col x)"
  have nth: "collections (?L x) ! i =
      (collections x ! i)\<lparr>c_objects :=
         removeAll em (removeAll dm (c_objects (collections x ! i)) @ (if i = col then [dm] else []))
           @ (if i = col then [em] else [])\<rparr>"
    if "col < length (collections x)" and "i < length (collections x)" for x i
    using that by (simp add: link_nth)
  have "collections (?L (?L d)) = collections (?L d)"
  proof (rule nth_equalityI)
    show "length (collections (?L (?L d))) = length (collections (?L d))" by simp
  next
    fix i assume "i < length (collections (?L (?L d)))"
    then have i: "i < length (collections d)" by simp
    have "collections (?L (?L d)) ! i =
        (collections (?L d) ! i)\<lparr>c_objects :=
         removeAll em (removeAll dm (c_objects (collections (?L d) ! i)) @ (if i = col then [dm] else []))
           @ (if i = col then [em] else [])\<rparr>"
      using assms(2) i by (intro nth) simp_all
    also have "\<dots> = collections (?L d) ! i"
      using assms(1) by (simp add: nth [OF assms(2) i] relink_members)
    finally show "collections (?L (?L d)) ! i = collections (?L d) ! i" .
  qed
  then show ?thesis by (simp add: rig_frame_def)
qed

lemma create_rig_objects_found:
  assumes "index_of (\<lambda>c. c_name c = COLLECTION_NAME) (collections d) = Some col"
    and "objects_get d DOMAIN_NAME = Some dm" and "objects_get d EMITTER_NAME = Some em"
  shows "create_rig_objects d =
         (dm, em, link_to_collection em col (link_to_collection dm col d))"
  using assms by (simp add: create_rig_objects_def ensure_collection_def)

lemma create_rig_after:
  "create_rig_objects d = (dm, em, d') \<Longrightarrow> create_rig H d = create_rig_from_sizes H dm em d'"
  by (simp add: create_rig_def)

text \<open>What the lookups of the first half read is part of the frame.\<close>

lemma frame_lookups:
  assumes "rig_frame d' = rig_frame d"
  shows "objects_get d' n = objects_get d n"
    and "index_of (\<lambda>c. c_name c = n) (collections d') = index_of (\<lambda>c. c_name c = n) (collections d)"
    and "collection_members n d' = collection_members n d"
    and "objects_named n d' = objects_named n d"
    and "length (objects d') = length (objects d)"
proof -
  from assms have m: "map o_name (objects d') = map o_name (objects d)"
    and c: "collections d' = collections d" by (simp_all add: rig_frame_def)
  show "objects_get d' n = objects_get d n" by (simp add: objects_get_names m)
  show "index_of (\<lambda>c. c_name c = n) (collections d') = index_of (\<lambda>c. c_name c = n) (collections d)"
    by (simp add: c)
  show "collection_members n d' = collection_members n d" by (simp only: collection_members_def c)
  show "objects_named n d' = objects_named n d" by (simp add: objects_named_names m)
  from m show "length (objects d') = length (objects d)" by (metis length_map)
qed

lemma link_twice_lookups:
  assumes "index_of (\<lambda>c. c_name c = n) (collections d) = Some col" and "dm \<noteq> em"
  shows "objects_get (link_to_collection em col (link_to_collection dm col d)) m = objects_get d m"
    and "index_of (\<lambda>c. c_name c = n)
           (collections (link_to_collection em col (link_to_collection dm col d))) = Some col"
    and "collection_members n (link_to_collection em col (link_to_collection dm col d)) =
           removeAll em (removeAll dm (collection_members n d)) @ [dm, em]"
    and "objects_named m (link_to_collection em col (link_to_collection dm col d)) =
           objects_named m d"
proof -
  let ?d = "link_to_collection em col (link_to_collection dm col d)"
  from index_of_Some [OF assms(1)] have col: "col < length (collections d)" by simp
  show "objects_get ?d m = objects_get d m" by (simp add: objects_get_def)
  show "objects_named m ?d = objects_named m d" by (simp add: objects_named_def)
  have "map c_name (collections ?d) = map c_name (collections d)"
    using col by (simp add: link_names)
  with assms(1) show i: "index_of (\<lambda>c. c_name c = n) (collections ?d) = Some col"
    by (simp add: collection_index_names)
  show "collection_members n ?d = removeAll em (removeAll dm (collection_members n d)) @ [dm, em]"
    using col assms(2) by (simp add: collection_members_def i assms(1) link_nth)
qed

lemma removeAll_pair:
  "set xs \<subseteq> {a, b} \<Longrightarrow> removeAll b (removeAll a xs) = []"
  by (induction xs) auto

text \<open>
  C3: \<open>create_rig\<close> run on any document, then run again, with any settings and on any
  host. The second run leaves the names of the objects and every membership as the first
  run left them: the same number of objects, the same number of them under each of the
  two fixed names, the same members of the collection. The second run finds the domain
  and the emitter under the fixed names, and they are the last two members of the
  collection, after the members it had before the first run. So the collection holds
  exactly the two whenever nothing else was in it before the first run, and there is
  exactly one object under each name whenever the names of the document were distinct
  before the first run, as the host keeps them.
\<close>

theorem create_rig_twice_adds_nothing:
  "let d1 = doc_of (create_rig H d);
       d2 = doc_of (create_rig H' (d1\<lparr>fire_vfx_settings := s'\<rparr>))
   in rig_frame d2 = rig_frame d1 \<and>
      length (objects d2) = length (objects d1) \<and>
      objects_named DOMAIN_NAME d2 = objects_named DOMAIN_NAME d1 \<and>
      objects_named EMITTER_NAME d2 = objects_named EMITTER_NAME d1 \<and>
      collection_members COLLECTION_NAME d2 = collection_members COLLECTION_NAME d1 \<and>
      (\<exists>dm em. dm \<noteq> em \<and>
         objects_get d2 DOMAIN_NAME = Some dm \<and> objects_get d2 EMITTER_NAME = Some em \<and>
         collection_members COLLECTION_NAME d2 =
           removeAll em (removeAll dm (collection_members COLLECTION_NAME d)) @ [dm, em] \<and>
         (set (collection_members COLLECTION_NAME d) \<subseteq>
            set_option (objects_get d DOMAIN_NAME) \<union> set_option (objects_get d EMITTER_NAME) \<longrightarrow>
          collection_members COLLECTION_NAME d2 = [dm, em])) \<and>
      (distinct (map o_name (objects d)) \<longrightarrow>
         objects_named DOMAIN_NAME d2 = 1 \<and> objects_named EMITTER_NAME d2 = 1)"
proof -
  obtain dm em col d3 where
    cr: "create_rig_objects d = (dm, em, link_to_collection em col (link_to_collection dm col d3))"
    and c3: "index_of (\<lambda>c. c_name c = COLLECTION_NAME) (collections d3) = Some col"
    and g3: "objects_get d3 DOMAIN_NAME = Some dm" "objects_get d3 EMITTER_NAME = Some em"
    and m3: "collection_members COLLECTION_NAME d3 = collection_members COLLECTION_NAME d"
    and p3: "set_option (objects_get d DOMAIN_NAME) \<subseteq> {dm}"
      "set_option (objects_get d EMITTER_NAME) \<subseteq> {em}"
    and n3: "distinct (map o_name (objects d)) \<Longrightarrow> distinct (map o_name (objects d3))"
    by (rule create_rig_objects_shape [where d = d]) blast
  let ?L = "link_to_collection em col (link_to_collection dm col d3)"
  let ?d1 = "doc_of (create_rig H d)"
  let ?X = "?d1\<lparr>fire_vfx_settings := s'\<rparr>"
  let ?LX = "link_to_collection em col (link_to_collection dm col ?X)"
  let ?d2 = "doc_of (create_rig H' ?X)"
  from objects_get_Some [OF g3(1)] objects_get_Some [OF g3(2)] names_differ
  have ne: "dm \<noteq> em" by auto
  from index_of_Some [OF c3] have col: "col < length (collections d3)" by simp
  note L = link_twice_lookups [OF c3 ne]
  have d1: "?d1 = doc_of (create_rig_from_sizes H dm em ?L)"
    by (simp only: create_rig_after [OF cr])
  have f1: "rig_frame ?d1 = rig_frame ?L"
    unfolding d1 by (rule frame_create_rig_from_sizes)
  have fX: "rig_frame ?X = rig_frame ?L"
    using f1 by (simp add: rig_frame_def)
  note X = frame_lookups [OF fX]
  have cr2: "create_rig_objects ?X = (dm, em, ?LX)"
  proof (rule create_rig_objects_found)
    show "index_of (\<lambda>c. c_name c = COLLECTION_NAME) (collections ?X) = Some col"
      by (simp only: X(2) L(2))
    show "objects_get ?X DOMAIN_NAME = Some dm" by (simp only: X(1) L(1) g3)
    show "objects_get ?X EMITTER_NAME = Some em" by (simp only: X(1) L(1) g3)
  qed
  have d2: "?d2 = doc_of (create_rig_from_sizes H' dm em ?LX)"
    by (simp only: create_rig_after [OF cr2])
  have "rig_frame ?d2 = rig_frame ?LX"
    unfolding d2 by (rule frame_create_rig_from_sizes)
  also have "\<dots> = rig_frame (link_to_collection em col (link_to_collection dm col ?L))"
    by (intro frame_link fX)
  also have "\<dots> = rig_frame ?L" by (rule link_twice_again [OF ne col])
  finally have f2: "rig_frame ?d2 = rig_frame ?L" .
  note D = frame_lookups [OF f2]
  note E = frame_lookups [OF f1]
  have members: "collection_members COLLECTION_NAME ?d2 =
      removeAll em (removeAll dm (collection_members COLLECTION_NAME d)) @ [dm, em]"
    by (simp only: D(3) L(3) m3)
  have exact: "collection_members COLLECTION_NAME ?d2 = [dm, em]"
    if "set (collection_members COLLECTION_NAME d) \<subseteq>
          set_option (objects_get d DOMAIN_NAME) \<union> set_option (objects_get d EMITTER_NAME)"
  proof -
    from that p3 have "set (collection_members COLLECTION_NAME d) \<subseteq> {dm, em}" by blast
    then have "removeAll em (removeAll dm (collection_members COLLECTION_NAME d)) = []"
      by (rule removeAll_pair)
    with members show ?thesis by simp
  qed
  have one: "objects_named DOMAIN_NAME ?d2 = 1 \<and> objects_named EMITTER_NAME ?d2 = 1"
    if "distinct (map o_name (objects d))"
  proof -
    from n3 [OF that] have dist: "distinct (map o_name (objects d3))" .
    have "index_of (\<lambda>m. m = DOMAIN_NAME) (map o_name (objects d3)) \<noteq> None"
      "index_of (\<lambda>m. m = EMITTER_NAME) (map o_name (objects d3)) \<noteq> None"
      using g3 by (simp_all add: objects_get_names)
    then have "DOMAIN_NAME \<in> set (map o_name (objects d3))"
      "EMITTER_NAME \<in> set (map o_name (objects d3))"
      by (simp_all only: index_of_name_None not_not)
    with dist have "objects_named DOMAIN_NAME d3 = 1" "objects_named EMITTER_NAME d3 = 1"
      by (simp_all only: objects_named_names count_distinct_name)
    then show ?thesis by (simp only: D(4) L(4))
  qed
  show ?thesis
    unfolding Let_def
  proof (intro conjI)
    show "rig_frame ?d2 = rig_frame ?d1" by (simp only: f2 f1)
    show "length (objects ?d2) = length (objects ?d1)" by (simp only: D(5) E(5))
    show "objects_named DOMAIN_NAME ?d2 = objects_named DOMAIN_NAME ?d1" by (simp only: D(4) E(4))
    show "objects_named EMITTER_NAME ?d2 = objects_named EMITTER_NAME ?d1" by (simp only: D(4) E(4))
    show "collection_members COLLECTION_NAME ?d2 = collection_members COLLECTION_NAME ?d1"
      by (simp only: D(3) E(3))
    show "\<exists>dm em. dm \<noteq> em \<and>
         objects_get ?d2 DOMAIN_NAME = Some dm \<and> objects_get ?d2 EMITTER_NAME = Some em \<and>
         collection_members COLLECTION_NAME ?d2 =
           removeAll em (removeAll dm (collection_members COLLECTION_NAME d)) @ [dm, em] \<and>
         (set (collection_members COLLECTION_NAME d) \<subseteq>
            set_option (objects_get d DOMAIN_NAME) \<union> set_option (objects_get d EMITTER_NAME) \<longrightarrow>
          collection_members COLLECTION_NAME ?d2 = [dm, em])"
    proof (rule exI [of _ dm], rule exI [of _ em], intro conjI impI)
      show "dm \<noteq> em" by (fact ne)
      show "objects_get ?d2 DOMAIN_NAME = Some dm" by (simp only: D(1) L(1) g3)
      show "objects_get ?d2 EMITTER_NAME = Some em" by (simp only: D(1) L(1) g3)
      show "collection_members COLLECTION_NAME ?d2 =
           removeAll em (removeAll dm (collection_members COLLECTION_NAME d)) @ [dm, em]"
        by (rule members)
    qed (rule exact)
    show "distinct (map o_name (objects d)) \<longrightarrow>
         objects_named DOMAIN_NAME ?d2 = 1 \<and> objects_named EMITTER_NAME ?d2 = 1"
      using one by blast
  qed
qed

theorem create_rig_twice_adds_nothing_witness:
  "set (collection_members COLLECTION_NAME empty_document) \<subseteq>
     set_option (objects_get empty_document DOMAIN_NAME) \<union>
     set_option (objects_get empty_document EMITTER_NAME) \<and>
   distinct (map o_name (objects empty_document)) \<and>
   (let d1 = doc_of (create_rig plain_host empty_document);
        d2 = doc_of (create_rig plain_host
               (d1\<lparr>fire_vfx_settings :=
                    apply_preset_to_settings (fire_vfx_settings d1) ''EXPLOSION''\<rparr>))
    in length (objects d2) = length (objects d1) \<and>
       collection_members COLLECTION_NAME d2 = collection_members COLLECTION_NAME d1 \<and>
       objects_named DOMAIN_NAME d2 = 1 \<and> objects_named EMITTER_NAME d2 = 1 \<and>
       map o_name (objects d2) = [DOMAIN_NAME, EMITTER_NAME] \<and>
       collection_members COLLECTION_NAME d2 = [0, 1])"
proof -
  have h1: "set (collection_members COLLECTION_NAME empty_document) \<subseteq>
     set_option (objects_get empty_document DOMAIN_NAME) \<union>
     set_option (objects_get empty_document EMITTER_NAME)"
    by (simp add: collection_members_def empty_document_def)
  have h2: "distinct (map o_name (objects empty_document))"
    by (simp add: empty_document_def)
  have e: "(let d1 = doc_of (create_rig plain_host empty_document);
        d2 = doc_of (create_rig plain_host
               (d1\<lparr>fire_vfx_settings :=
                    apply_preset_to_settings (fire_vfx_settings d1) ''EXPLOSION''\<rparr>))
    in map o_name (objects d2) = [DOMAIN_NAME, EMITTER_NAME] \<and>
       collection_members COLLECTION_NAME d2 = [0, 1])"
    by code_simp
  from create_rig_twice_adds_nothing [of plain_host empty_document plain_host
      "apply_preset_to_settings
         (fire_vfx_settings (doc_of (create_rig plain_host empty_document))) ''EXPLOSION''"]
    h1 h2 e
  show ?thesis unfolding Let_def by blast
qed

end
